theory Spec2Isabelle
  imports Main
begin

section \<open>Shared vocabulary of the quantizer\<close>

text \<open>
  The enumerations of \<^verbatim>\<open>qtyping\<close> are used by every module. The module itself is a
  declaration file; its members are taken from the places where the sources name them.
\<close>

text \<open>Modelled from the spec: the enum \<^verbatim>\<open>qtyping.OpExecutionMode\<close>
  (execution mode \<open>\<in>\<close> WEIGHT_ONLY, DYNAMIC_RANGE, STATIC_RANGE), under the member
  names the sources use.\<close>

datatype OpExecutionMode = WEIGHT_ONLY | DRQ | SRQ

text \<open>Modelled from the spec: the enum \<^verbatim>\<open>qtyping.QuantTransformation\<close>, the four
  graph edits of the transformation engine.\<close>

datatype QuantTransformation = NO_QUANTIZE | QUANTIZE_TENSOR | ADD_QUANTIZE | ADD_DEQUANTIZE

text \<open>Modelled from the spec: the enum \<^verbatim>\<open>qtyping.TFLOperationName\<close>; the members
  are those that the sources mention. \<open>ALL_OPS\<close> is the member \<^verbatim>\<open>ALL\<close>.\<close>

datatype TFLOperationName =
    ALL_OPS | FULLY_CONNECTED | BATCH_MATMUL | CONV_2D | DEPTHWISE_CONV_2D | TRANSPOSE_CONV
  | EMBEDDING_LOOKUP | SOFTMAX | AVERAGE_POOL_2D | RESHAPE | TRANSPOSE | TANH | GELU
  | ADD | SUB | MUL | CUSTOM_OP

text \<open>Modelled from the spec: \<^verbatim>\<open>qtyping.TensorDataType\<close>, with members
  \<^verbatim>\<open>FLOAT\<close> and \<^verbatim>\<open>INT\<close>.\<close>

datatype TensorDataType = FLOAT_DTYPE | INT_DTYPE

text \<open>Modelled from the spec: the dataclass \<^verbatim>\<open>qtyping.TensorQuantizationConfig\<close>
  (bit-width, symmetric flag, per-channel flag, declared data kind).\<close>

record TensorQuantizationConfig =
  num_bits :: int
  symmetric :: bool
  channel_wise :: bool
  dtype :: TensorDataType

text \<open>Modelled from the spec: the dataclass \<^verbatim>\<open>qtyping.OpQuantizationConfig\<close>. The
  activation config is optional (\<^verbatim>\<open>check_srq_config\<close> tests it against None); the
  weight config is read without such a test everywhere, so it is always present.\<close>

record OpQuantizationConfig =
  activation_tensor_config :: "TensorQuantizationConfig option"
  weight_tensor_config :: TensorQuantizationConfig
  execution_mode :: OpExecutionMode

text \<open>Python exceptions that the modelled functions raise, as values.\<close>

datatype error =
    ValueError string
  | KeyError
  | IndexError
  | AttributeError
  | TypeError
  | ReError

section \<open>Transformation table (\<^verbatim>\<open>min_max_quantize_utils.get_tensor_transformations\<close>)\<close>

definition get_tensor_transformations ::
  "OpQuantizationConfig \<Rightarrow> bool \<Rightarrow> bool \<Rightarrow> QuantTransformation list" where
  "get_tensor_transformations op_quant_config is_inbounding_tensor is_constant =
     (if execution_mode op_quant_config = SRQ then
        (if is_inbounding_tensor then
           (if is_constant then [QUANTIZE_TENSOR] else [ADD_QUANTIZE])
         else [ADD_DEQUANTIZE])
      else if execution_mode op_quant_config = DRQ then
        (if is_inbounding_tensor \<and> is_constant then [QUANTIZE_TENSOR] else [NO_QUANTIZE])
      else if execution_mode op_quant_config = WEIGHT_ONLY then
        (if is_inbounding_tensor \<and> is_constant then [ADD_DEQUANTIZE] else [NO_QUANTIZE])
      else [])"

text \<open>The mode table of the spec, written as a function of its three coordinates.\<close>

fun mode_table :: "OpExecutionMode \<Rightarrow> bool \<Rightarrow> bool \<Rightarrow> QuantTransformation list" where
  "mode_table SRQ True True = [QUANTIZE_TENSOR]"
| "mode_table SRQ True False = [ADD_QUANTIZE]"
| "mode_table SRQ False _ = [ADD_DEQUANTIZE]"
| "mode_table DRQ True True = [QUANTIZE_TENSOR]"
| "mode_table DRQ _ _ = [NO_QUANTIZE]"
| "mode_table WEIGHT_ONLY True True = [ADD_DEQUANTIZE]"
| "mode_table WEIGHT_ONLY _ _ = [NO_QUANTIZE]"

section \<open>Flatbuffer tensors (\<^verbatim>\<open>tfl_flatbuffer_utils\<close>)\<close>

text \<open>The tensor element types of the TFLite schema, in the order of their codes
  (\<^verbatim>\<open>NUM_TFL_DATATYPES = 18\<close>).\<close>

datatype TensorType =
    FLOAT32 | FLOAT16 | INT32 | UINT8 | INT64 | STRING | BOOL | INT16 | COMPLEX64 | INT8
  | FLOAT64 | COMPLEX128 | UINT64 | RESOURCE | VARIANT | UINT32 | UINT16 | INT4

text \<open>\<^verbatim>\<open>QuantizationParametersT\<close> of the schema's object API: the three fields that the
  sources read and write. A fresh object has no scale, no zero point and quantized
  dimension 0. The element type \<open>'f\<close> stands for a 32-bit float.\<close>

record 'f QuantizationParametersT =
  scale :: "'f list option"
  zeroPoint :: "int list option"
  quantizedDimension :: int

text \<open>\<^verbatim>\<open>TensorT\<close>: \<open>buffer\<close> indexes the model's buffer table, 0 being the empty
  buffer every model has.\<close>

record 'f TensorT =
  shape :: "int list"
  type :: TensorType
  buffer :: nat
  name :: string
  quantization :: "'f QuantizationParametersT option"

text \<open>\<^verbatim>\<open>to_tuple\<close>, local to \<^verbatim>\<open>has_same_quantization\<close>.\<close>

definition to_tuple :: "'a list option \<Rightarrow> 'a list" where
  "to_tuple val = (case val of None \<Rightarrow> [] | Some v \<Rightarrow> v)"

text \<open>
  \<^verbatim>\<open>has_same_quantization\<close> of \<^verbatim>\<open>ai_edge_quantizer/utils/tfl_flatbuffer_utils.py\<close>.
  Reading \<^verbatim>\<open>.scale\<close> of a null quantization raises AttributeError. Python compares
  tuples of floats element by element with the float equality, which is the parameter
  \<open>feq\<close> (it is not reflexive on NaN).
\<close>

text \<open>The four comparisons that \<^verbatim>\<open>has_same_quantization\<close> returns once both
  quantization objects have been read.\<close>

definition same_quantization_fields ::
  "('f \<Rightarrow> 'f \<Rightarrow> bool) \<Rightarrow> bool \<Rightarrow> 'f QuantizationParametersT
     \<Rightarrow> 'f QuantizationParametersT \<Rightarrow> bool" where
  "same_quantization_fields feq same_type q1 q2 =
     (let same_scale = list_all2 feq (to_tuple (scale q1)) (to_tuple (scale q2));
          same_zero_point = (to_tuple (zeroPoint q1) = to_tuple (zeroPoint q2));
          same_quantized_dimension = (quantizedDimension q1 = quantizedDimension q2)
      in same_type \<and> same_scale \<and> same_zero_point \<and> same_quantized_dimension)"

definition has_same_quantization ::
  "('f \<Rightarrow> 'f \<Rightarrow> bool) \<Rightarrow> 'f TensorT \<Rightarrow> 'f TensorT \<Rightarrow> error + bool" where
  "has_same_quantization feq tensor1 tensor2 =
     (let same_type = (type tensor1 = type tensor2) in
      if quantization tensor1 = None \<and> quantization tensor2 = None then Inr True
      else case quantization tensor1 of
        None \<Rightarrow> Inl AttributeError
      | Some q1 \<Rightarrow>
          if scale q1 = None then
            (case quantization tensor2 of
               None \<Rightarrow> Inl AttributeError
             | Some q2 \<Rightarrow>
                 if scale q2 = None then Inr True
                 else Inr (same_quantization_fields feq same_type q1 q2))
          else
            (case quantization tensor2 of
               None \<Rightarrow> Inl AttributeError
             | Some q2 \<Rightarrow> Inr (same_quantization_fields feq same_type q1 q2)))"

section \<open>Recipe manager (\<^verbatim>\<open>recipe_manager.py\<close>)\<close>

text \<open>One element of a \<^verbatim>\<open>ModelQuantizationRecipe\<close>: a dictionary with the five keys
  that \<^verbatim>\<open>get_quantization_recipe\<close> writes; \<open>'d\<close> is the dictionary form of an
  operator config.\<close>

record 'd RecipeDict =
  regex :: string
  operation :: TFLOperationName
  algorithm_key :: string
  op_config :: 'd
  override_algorithm :: bool

text \<open>The dataclass \<^verbatim>\<open>OpQuantizationRecipe\<close>; \<open>'c\<close> is the type of operator configs.\<close>

record 'c OpQuantizationRecipe =
  regex :: string
  operation :: TFLOperationName
  algorithm_key :: string
  op_config :: 'c
  override_algorithm :: bool

text \<open>
  What the recipe manager takes from modules that are not part of the sources:
  \<^item> \<open>NO_QUANT\<close>: the constant \<^verbatim>\<open>algorithm_manager.NO_QUANT\<close>;
  \<^item> \<open>is_op_registered\<close>: \<^verbatim>\<open>algorithm_manager.is_op_registered\<close>, which may raise;
  \<^item> \<open>operation_str\<close>: the text that an f-string gives for a member of
    \<^verbatim>\<open>TFLOperationName\<close>;
  \<^item> \<open>default_op_config\<close>: the value of \<^verbatim>\<open>_OpQuantizationConfig()\<close>;
  \<^item> \<open>re_search\<close>: whether \<^verbatim>\<open>re.search(pattern, string)\<close> finds a match; None when
    the pattern does not compile (\<^verbatim>\<open>re.error\<close>);
  \<^item> \<open>to_dict\<close>, \<open>from_dict\<close>: the two conversions of \<^verbatim>\<open>OpQuantizationConfig\<close>.
\<close>

record ('c, 'd) recipe_env =
  NO_QUANT :: string
  is_op_registered :: "string \<Rightarrow> TFLOperationName \<Rightarrow> error + bool"
  operation_str :: "TFLOperationName \<Rightarrow> string"
  default_op_config :: 'c
  re_search :: "string \<Rightarrow> string \<Rightarrow> bool option"
  to_dict :: "'c \<Rightarrow> 'd"
  from_dict :: "'d \<Rightarrow> 'c"

text \<open>\<^verbatim>\<open>self._scope_configs\<close>, an \<^verbatim>\<open>OrderedDict\<close>: an association list in insertion
  order.\<close>

type_synonym 'c scope_configs = "(string \<times> 'c OpQuantizationRecipe list) list"

text \<open>\<^verbatim>\<open>d[k] = v\<close> on an \<^verbatim>\<open>OrderedDict\<close>: an existing key keeps its position, a new key
  goes to the end.\<close>

fun od_setitem :: "('k \<times> 'v) list \<Rightarrow> 'k \<Rightarrow> 'v \<Rightarrow> ('k \<times> 'v) list" where
  "od_setitem [] k v = [(k, v)]"
| "od_setitem ((k', v') # kvs) k v =
     (if k' = k then (k, v) # kvs else (k', v') # od_setitem kvs k v)"

text \<open>The loop of \<^verbatim>\<open>add_quantization_config\<close> over the existing rules of a scope, with
  its two variables \<^verbatim>\<open>configs\<close> and \<^verbatim>\<open>is_new_op\<close>.\<close>

fun reiterate_configs ::
  "'c OpQuantizationRecipe list \<Rightarrow> 'c OpQuantizationRecipe \<Rightarrow> 'c OpQuantizationRecipe list
     \<Rightarrow> bool \<Rightarrow> 'c OpQuantizationRecipe list \<times> bool" where
  "reiterate_configs [] config configs is_new_op = (configs, is_new_op)"
| "reiterate_configs (existing_config # rest) config configs is_new_op =
     (if operation existing_config = operation config
      then reiterate_configs rest config (configs @ [config]) False
      else reiterate_configs rest config (configs @ [existing_config]) is_new_op)"

definition add_quantization_config ::
  "('c, 'd) recipe_env \<Rightarrow> 'c scope_configs \<Rightarrow> string \<Rightarrow> TFLOperationName \<Rightarrow> 'c option
     \<Rightarrow> string \<Rightarrow> bool \<Rightarrow> error + 'c scope_configs" where
  "add_quantization_config env scope_configs rx operation_name op_config_arg alg_key override =
     (let op_cfg = (case op_config_arg of None \<Rightarrow> default_op_config env | Some c \<Rightarrow> c);
          config = \<lparr>regex = rx, operation = operation_name, algorithm_key = alg_key,
                    op_config = op_cfg, override_algorithm = override\<rparr>;
          store = (case map_of scope_configs rx of
                     None \<Rightarrow> od_setitem scope_configs rx [config]
                   | Some existing \<Rightarrow>
                       (case reiterate_configs existing config [] True of
                          (configs, is_new_op) \<Rightarrow>
                            od_setitem scope_configs rx
                              (if is_new_op then configs @ [config] else configs)))
      in if operation config = ALL_OPS then Inr (od_setitem scope_configs rx [config])
         else if alg_key \<noteq> NO_QUANT env then
           (case is_op_registered env alg_key operation_name of
              Inl e \<Rightarrow> Inl e
            | Inr registered \<Rightarrow>
                if \<not> registered
                then Inl (ValueError (''Unsupported operation ''
                        @ operation_str env operation_name @ '' for algorithm '' @ alg_key
                        @ ''. Please check and update algorithm manager.''))
                else Inr store)
         else Inr store)"

text \<open>The inner loop of \<^verbatim>\<open>get_quantization_configs\<close> over the rules of one matching
  scope; the pair is (\<^verbatim>\<open>result_key\<close>, \<^verbatim>\<open>result_config\<close>).\<close>

fun scan_recipes ::
  "'c OpQuantizationRecipe list \<Rightarrow> TFLOperationName \<Rightarrow> string \<times> 'c \<Rightarrow> string \<times> 'c" where
  "scan_recipes [] target_op_name result = result"
| "scan_recipes (recipe # rest) target_op_name (result_key, result_config) =
     (if operation recipe \<noteq> ALL_OPS \<and> operation recipe \<noteq> target_op_name
      then scan_recipes rest target_op_name (result_key, result_config)
      else if result_key \<noteq> algorithm_key recipe then
        (if override_algorithm recipe
         then scan_recipes rest target_op_name (algorithm_key recipe, op_config recipe)
         else scan_recipes rest target_op_name (result_key, result_config))
      else scan_recipes rest target_op_name (result_key, op_config recipe))"

text \<open>The outer loop over the scopes, in insertion order.\<close>

fun scan_scopes ::
  "('c, 'd) recipe_env \<Rightarrow> 'c scope_configs \<Rightarrow> TFLOperationName \<Rightarrow> string \<Rightarrow> string \<times> 'c
     \<Rightarrow> error + string \<times> 'c" where
  "scan_scopes env [] target_op_name scope_name result = Inr result"
| "scan_scopes env ((scope_regex, recipes) # rest) target_op_name scope_name result =
     (case re_search env scope_regex scope_name of
        None \<Rightarrow> Inl ReError
      | Some found \<Rightarrow>
          scan_scopes env rest target_op_name scope_name
            (if found then scan_recipes recipes target_op_name result else result))"

definition get_quantization_configs ::
  "('c, 'd) recipe_env \<Rightarrow> 'c scope_configs \<Rightarrow> TFLOperationName \<Rightarrow> string
     \<Rightarrow> error + string \<times> 'c" where
  "get_quantization_configs env scope_configs target_op_name scope_name =
     scan_scopes env scope_configs target_op_name scope_name
       (NO_QUANT env, default_op_config env)"





text \<open>The rule tables that a manager can hold: the empty one, and every table that a call
  of \<^verbatim>\<open>add_quantization_config\<close> that returns makes from one of them.\<close>

inductive reachable :: "('c, 'd) recipe_env \<Rightarrow> 'c scope_configs \<Rightarrow> bool" for env where
  reachable_init: "reachable env []"
| reachable_add:
    "reachable env st \<Longrightarrow>
     add_quantization_config env st rx operation_name op_config_arg alg_key override = Inr st'
     \<Longrightarrow> reachable env st'"

text \<open>The rule that a call of \<^verbatim>\<open>add_quantization_config\<close> builds from its arguments.\<close>

definition new_recipe ::
  "('c, 'd) recipe_env \<Rightarrow> string \<Rightarrow> TFLOperationName \<Rightarrow> 'c option \<Rightarrow> string \<Rightarrow> bool
     \<Rightarrow> 'c OpQuantizationRecipe" where
  "new_recipe env rx operation_name op_config_arg alg_key override =
     \<lparr>regex = rx, operation = operation_name, algorithm_key = alg_key,
      op_config = (case op_config_arg of None \<Rightarrow> default_op_config env | Some c \<Rightarrow> c),
      override_algorithm = override\<rparr>"

text \<open>A rule passes the registration test of \<^verbatim>\<open>add_quantization_config\<close>.\<close>

definition registered_ok :: "('c, 'd) recipe_env \<Rightarrow> 'c OpQuantizationRecipe \<Rightarrow> bool" where
  "registered_ok env r =
     (algorithm_key r = NO_QUANT env
      \<or> is_op_registered env (algorithm_key r) (operation r) = Inr True)"

definition wf_scope :: "('c, 'd) recipe_env \<Rightarrow> string \<times> 'c OpQuantizationRecipe list \<Rightarrow> bool" where
  "wf_scope env s =
     (snd s \<noteq> []
      \<and> list_all (\<lambda>r. regex r = fst s) (snd s)
      \<and> distinct (map operation (snd s))
      \<and> ALL_OPS \<notin> set (map operation (tl (snd s)))
      \<and> list_all (\<lambda>r. operation r = ALL_OPS \<or> registered_ok env r) (snd s))"

definition wf_state :: "('c, 'd) recipe_env \<Rightarrow> 'c scope_configs \<Rightarrow> bool" where
  "wf_state env st = (distinct (map fst st) \<and> list_all (wf_scope env) st)"

definition stored_rules ::
  "'c scope_configs \<Rightarrow> string \<Rightarrow> 'c OpQuantizationRecipe \<Rightarrow> 'c OpQuantizationRecipe list" where
  "stored_rules st rx c =
     (case map_of st rx of
        None \<Rightarrow> [c]
      | Some rs \<Rightarrow>
          map (\<lambda>e. if operation e = operation c then c else e) rs
          @ (if operation c \<in> operation ` set rs then [] else [c]))"


text \<open>
  The resolution as the specification words it: the applicable rules are the rules of the
  scopes whose regex finds a match in the scope name, in insertion order, whose target is
  ALL or the queried operator; each of them is accepted or ignored in turn, starting from
  the "no quantization" pair.
\<close>

definition applicable_rules ::
  "('c, 'd) recipe_env \<Rightarrow> 'c scope_configs \<Rightarrow> TFLOperationName \<Rightarrow> string
     \<Rightarrow> 'c OpQuantizationRecipe list" where
  "applicable_rules env st target_op_name scope_name =
     filter (\<lambda>r. operation r = ALL_OPS \<or> operation r = target_op_name)
       (concat (map snd (filter (\<lambda>s. re_search env (fst s) scope_name = Some True) st)))"

definition accept_rule :: "string \<times> 'c \<Rightarrow> 'c OpQuantizationRecipe \<Rightarrow> string \<times> 'c" where
  "accept_rule result r =
     (if algorithm_key r \<noteq> fst result
      then (if override_algorithm r then (algorithm_key r, op_config r) else result)
      else (fst result, op_config r))"

definition resolve_spec ::
  "('c, 'd) recipe_env \<Rightarrow> 'c scope_configs \<Rightarrow> TFLOperationName \<Rightarrow> string
     \<Rightarrow> error + string \<times> 'c" where
  "resolve_spec env st target_op_name scope_name =
     (if list_ex (\<lambda>s. re_search env (fst s) scope_name = None) st then Inl ReError
      else Inr (foldl accept_rule (NO_QUANT env, default_op_config env)
                  (applicable_rules env st target_op_name scope_name)))"

text \<open>
  A concrete environment for the examples. Its \<open>re_search\<close> is the search for a literal
  substring, which is what \<^verbatim>\<open>re.search\<close> does for a pattern without metacharacters;
  the examples use such patterns only. Operator configs are numbered, 0 being the default
  one, and every operator is registered for every algorithm. The text of an operation is
  the name of the member; ALL, whose value is the pattern for any operation, is \<open>*\<close>.
\<close>

fun example_operation_str :: "TFLOperationName \<Rightarrow> string" where
  "example_operation_str ALL_OPS = ''*''"
| "example_operation_str FULLY_CONNECTED = ''FULLY_CONNECTED''"
| "example_operation_str BATCH_MATMUL = ''BATCH_MATMUL''"
| "example_operation_str CONV_2D = ''CONV_2D''"
| "example_operation_str DEPTHWISE_CONV_2D = ''DEPTHWISE_CONV_2D''"
| "example_operation_str TRANSPOSE_CONV = ''TRANSPOSE_CONV''"
| "example_operation_str EMBEDDING_LOOKUP = ''EMBEDDING_LOOKUP''"
| "example_operation_str SOFTMAX = ''SOFTMAX''"
| "example_operation_str AVERAGE_POOL_2D = ''AVERAGE_POOL_2D''"
| "example_operation_str RESHAPE = ''RESHAPE''"
| "example_operation_str TRANSPOSE = ''TRANSPOSE''"
| "example_operation_str TANH = ''TANH''"
| "example_operation_str GELU = ''GELU''"
| "example_operation_str ADD = ''ADD''"
| "example_operation_str SUB = ''SUB''"
| "example_operation_str MUL = ''MUL''"
| "example_operation_str CUSTOM_OP = ''CUSTOM_OP''"

fun literal_at :: "string \<Rightarrow> string \<Rightarrow> bool" where
  "literal_at [] s = True"
| "literal_at (c # p) [] = False"
| "literal_at (c # p) (d # s) = (c = d \<and> literal_at p s)"

fun literal_search :: "string \<Rightarrow> string \<Rightarrow> bool" where
  "literal_search p [] = literal_at p []"
| "literal_search p (d # s) = (literal_at p (d # s) \<or> literal_search p s)"

definition example_env :: "(nat, nat) recipe_env" where
  "example_env =
     \<lparr>NO_QUANT = ''no_quant'',
      is_op_registered = (\<lambda>k opn. Inr True),
      operation_str = example_operation_str,
      default_op_config = 0,
      re_search = (\<lambda>p s. Some (literal_search p s)),
      to_dict = (\<lambda>c. c),
      from_dict = (\<lambda>d. d)\<rparr>"

section \<open>Operator configs as dictionaries\<close>

text \<open>
  The module \<^verbatim>\<open>qtyping\<close> with \<^verbatim>\<open>OpQuantizationConfig.to_dict\<close> and
  \<^verbatim>\<open>OpQuantizationConfig.from_dict\<close> is not among the sources. The recipe document of
  the specification is a list of records whose field \<open>operatorConfig\<close> holds the operator
  config in a simple structured format; the recipe that \<^verbatim>\<open>model_modifier_test.py\<close>
  loads shows that format: a dictionary with the keys \<^verbatim>\<open>weight_tensor_config\<close> (a
  dictionary with \<^verbatim>\<open>dtype\<close>, \<^verbatim>\<open>num_bits\<close>, \<^verbatim>\<open>symmetric\<close> and \<^verbatim>\<open>channel_wise\<close>) and
  \<^verbatim>\<open>execution_mode\<close>, and no key for an activation config that is null.
\<close>








section \<open>Quantization parameters and the edit of one tensor\<close>

text \<open>Modelled from the spec: the dataclass \<^verbatim>\<open>qtyping.UniformQuantParams\<close> (scale,
  zero point, bit-width, symmetric flag, optional quantized dimension, optional quantized
  data). The three array fields are numpy arrays; their types are parameters.\<close>

record ('s, 'z, 'q) UniformQuantParams =
  scale :: 's
  zero_point :: 'z
  num_bits :: int
  symmetric :: bool
  quantized_dimension :: "int option"
  quantized_data :: "'q option"

text \<open>Modelled from the spec: the dataclass \<^verbatim>\<open>qtyping.TransformationInfo\<close>, the
  edit-plan entry that every graph edit returns.\<close>

record TransformationInfo =
  op_id :: int
  num_ops_added :: int
  output_tensor_id :: int

text \<open>Python's \<^verbatim>\<open>str\<close> of an integer, for the messages that print one.\<close>

definition digit_char :: "nat \<Rightarrow> char" where
  "digit_char d = ''0123456789'' ! d"

function str_nat :: "nat \<Rightarrow> string" where
  "str_nat n = (if n < 10 then [digit_char n] else str_nat (n div 10) @ [digit_char (n mod 10)])"
  by pat_completeness auto
termination
  by (relation "measure (\<lambda>n. n)") auto

declare str_nat.simps [simp del]

definition str_int :: "int \<Rightarrow> string" where
  "str_int i = (if i < 0 then CHR ''-'' # str_nat (nat (- i)) else str_nat (nat i))"

text \<open>Python's \<^verbatim>\<open>xs[i]\<close> for a list: the position that an integer index reads, negative
  indices counting from the end; None stands for IndexError.\<close>

definition py_index :: "'a list \<Rightarrow> int \<Rightarrow> nat option" where
  "py_index xs i =
     (let n = int (length xs) in
      if 0 \<le> i \<and> i < n then Some (nat i)
      else if - n \<le> i \<and> i < 0 then Some (nat (n + i))
      else None)"

text \<open>\<^verbatim>\<open>BufferT\<close> of the schema's object API: \<open>data\<close> is null for a buffer without
  content; \<open>offset\<close> and \<open>buffer_size\<close> (the field \<^verbatim>\<open>size\<close>) locate the content of a
  large model in the model file.\<close>

record 'a BufferT =
  data :: "'a option"
  offset :: nat
  buffer_size :: nat

text \<open>\<^verbatim>\<open>OperatorT\<close>: the tensor indices of its inputs and outputs, -1 for an absent
  optional input, and the flag \<^verbatim>\<open>builtinOptions.adjY\<close> where the options have one.\<close>

record OperatorT =
  inputs :: "int list"
  outputs :: "int list"
  builtinOptions_adjY :: "bool option"

record 'f SubGraphT =
  tensors :: "'f TensorT list"
  operators :: "OperatorT list"

text \<open>\<^verbatim>\<open>quant_params_to_tflite_type\<close> of \<^verbatim>\<open>transformations/quantize_tensor.py\<close>.\<close>

definition quant_params_to_tflite_type :: "int \<Rightarrow> error + TensorType" where
  "quant_params_to_tflite_type bitwidth =
     (if bitwidth \<le> 8 then Inr INT8
      else if bitwidth = 16 then Inr INT16
      else if bitwidth = 32 then Inr INT32
      else if bitwidth = 64 then Inr INT64
      else Inl (ValueError (''Unsupported quant params: '' @ str_int bitwidth)))"

text \<open>
  The numpy conversions that \<^verbatim>\<open>quantize_tensor\<close> applies to the arrays of the
  parameters:
  \<^item> \<open>scale_to_list\<close>: \<^verbatim>\<open>list(scale.flatten().astype(np.float32))\<close>;
  \<^item> \<open>zero_point_to_list\<close>: \<^verbatim>\<open>list(zero_point.flatten().astype(np.int32))\<close>;
  \<^item> \<open>to_uint8\<close>: \<^verbatim>\<open>np.frombuffer(data.tobytes(), dtype=np.uint8).flatten()\<close>.
\<close>

record ('a, 'f) array_conversions =
  scale_to_list :: "'a \<Rightarrow> 'f list"
  zero_point_to_list :: "'a \<Rightarrow> int list"
  to_uint8 :: "'a \<Rightarrow> 'a"

text \<open>The quantization object that \<^verbatim>\<open>quantize_tensor\<close> builds; the quantized dimension
  of a fresh \<^verbatim>\<open>QuantizationParametersT\<close> is 0.\<close>

definition flatbuffer_quantization ::
  "('a, 'f) array_conversions \<Rightarrow> ('a, 'a, 'a) UniformQuantParams
     \<Rightarrow> 'f QuantizationParametersT" where
  "flatbuffer_quantization conv quant_params =
     \<lparr>QuantizationParametersT.scale = Some (scale_to_list conv (scale quant_params)),
      zeroPoint = Some (zero_point_to_list conv (zero_point quant_params)),
      quantizedDimension =
        (case quantized_dimension quant_params of None \<Rightarrow> 0 | Some d \<Rightarrow> d)\<rparr>"

text \<open>
  \<^verbatim>\<open>quantize_tensor\<close>. The function changes the buffer list and the subgraph in place,
  one step after the other, so the model returns both with the outcome: when a step
  raises, the changes of the steps before it stay. The arguments \<^verbatim>\<open>op_codes\<close>,
  \<^verbatim>\<open>producer\<close> and \<^verbatim>\<open>consumers\<close> are deleted on entry.
\<close>

definition quantize_tensor ::
  "('a, 'f) array_conversions \<Rightarrow> int \<Rightarrow> 'c list \<Rightarrow> 'a BufferT list \<Rightarrow> 'f SubGraphT \<Rightarrow> int
     \<Rightarrow> int list \<Rightarrow> ('a, 'a, 'a) UniformQuantParams
     \<Rightarrow> (error + TransformationInfo) \<times> 'a BufferT list \<times> 'f SubGraphT" where
  "quantize_tensor conv tensor_id op_codes buffers subgraph producer consumers quant_params =
     (case py_index (tensors subgraph) tensor_id of
        None \<Rightarrow> (Inl IndexError, buffers, subgraph)
      | Some i \<Rightarrow>
          let tensor = tensors subgraph ! i in
          if buffer tensor \<noteq> 0 \<and> quantized_data quant_params \<noteq> None
             \<and> \<not> buffer tensor < length buffers
          then (Inl IndexError, buffers, subgraph)
          else
            let buffers' =
                  (case quantized_data quant_params of
                     None \<Rightarrow> buffers
                   | Some d \<Rightarrow>
                       if buffer tensor \<noteq> 0
                       then buffers[buffer tensor :=
                              (buffers ! buffer tensor)\<lparr>data := Some (to_uint8 conv d)\<rparr>]
                       else buffers);
                tensor' = tensor\<lparr>quantization :=
                            Some (flatbuffer_quantization conv quant_params)\<rparr>
            in case quant_params_to_tflite_type (num_bits quant_params) of
                 Inl e \<Rightarrow>
                   (Inl e, buffers', subgraph\<lparr>tensors := (tensors subgraph)[i := tensor']\<rparr>)
               | Inr ty \<Rightarrow>
                   (Inr \<lparr>op_id = 0, num_ops_added = 0, output_tensor_id = tensor_id\<rparr>,
                    buffers',
                    subgraph\<lparr>tensors := (tensors subgraph)[i := tensor'\<lparr>type := ty\<rparr>]\<rparr>))"

text \<open>Array conversions for the examples: arrays are lists of integers, and the three
  conversions leave the entries as they are.\<close>

definition example_conversions :: "(int list, int) array_conversions" where
  "example_conversions =
     \<lparr>scale_to_list = (\<lambda>a. a), zero_point_to_list = (\<lambda>a. a), to_uint8 = (\<lambda>a. a)\<rparr>"

definition example_subgraph :: "int SubGraphT" where
  "example_subgraph =
     \<lparr>tensors =
        [\<lparr>shape = [1, 2], type = FLOAT32, buffer = 0, name = ''input'', quantization = None\<rparr>,
         \<lparr>shape = [2, 2], type = FLOAT32, buffer = 1, name = ''weight'', quantization = None\<rparr>,
         \<lparr>shape = [1, 2], type = FLOAT32, buffer = 0, name = ''output'',
          quantization = None\<rparr>],
      operators = [\<lparr>inputs = [0, 1, - 1], outputs = [2], builtinOptions_adjY = None\<rparr>]\<rparr>"

definition example_buffers :: "int list BufferT list" where
  "example_buffers =
     [\<lparr>data = None, offset = 0, buffer_size = 0\<rparr>,
      \<lparr>data = Some [10, 20, 30, 40], offset = 0, buffer_size = 0\<rparr>]"

section \<open>Bias quantization\<close>

text \<open>Modelled from the spec: \<^verbatim>\<open>quantizeBias\<close>, the function
  \<^verbatim>\<open>uniform_quantize_tensor.symmetric_quantize_bias_tensor\<close>, whose module is not among
  the sources (its test is). Scales and zero points are the lists of their entries. The
  parameters are always symmetric with zero point 0; the scale is the outer product of the
  input scale and the weight scale; the bit-width is 32 when the input bit-width is 8 and
  64 otherwise. The quantized dimension is absent for a single scale and 0 otherwise, as
  the test expects. \<open>fmul\<close> is the product of two floats.\<close>

definition bias_quant_params ::
  "('f \<Rightarrow> 'f \<Rightarrow> 'f) \<Rightarrow> ('f list, int list, 'q) UniformQuantParams
     \<Rightarrow> ('f list, int list, 'q) UniformQuantParams
     \<Rightarrow> ('f list, int list, 'q) UniformQuantParams" where
  "bias_quant_params fmul input_tensor_quant_params weight_tensor_quant_params =
     (let effective_output_scale =
            concat (map (\<lambda>input_scale. map (fmul input_scale)
                           (scale weight_tensor_quant_params))
                      (scale input_tensor_quant_params))
      in \<lparr>scale = effective_output_scale,
          zero_point = replicate (length effective_output_scale) 0,
          num_bits = (if num_bits input_tensor_quant_params = 8 then 32 else 64),
          symmetric = True,
          quantized_dimension =
            (if length effective_output_scale = 1 then None else Some 0),
          quantized_data = None\<rparr>)"

text \<open>Modelled from the spec: the quantized values of the bias are computed via
  \<^verbatim>\<open>quantize\<close>, the parameter \<open>quantize\<close>, which fails with a ShapeError when the
  parameters do not broadcast against the tensor.\<close>

definition symmetric_quantize_bias_tensor ::
  "('f \<Rightarrow> 'f \<Rightarrow> 'f) \<Rightarrow> ('t \<Rightarrow> ('f list, int list, 'q) UniformQuantParams \<Rightarrow> error + 'q)
     \<Rightarrow> 't \<Rightarrow> ('f list, int list, 'q) UniformQuantParams
     \<Rightarrow> ('f list, int list, 'q) UniformQuantParams
     \<Rightarrow> error + ('f list, int list, 'q) UniformQuantParams" where
  "symmetric_quantize_bias_tensor fmul quantize bias_content input_tensor_quant_params
       weight_tensor_quant_params =
     (let bias_params = bias_quant_params fmul input_tensor_quant_params
                          weight_tensor_quant_params
      in case quantize bias_content bias_params of
           Inl e \<Rightarrow> Inl e
         | Inr quantized_vars \<Rightarrow> Inr (bias_params\<lparr>quantized_data := Some quantized_vars\<rparr>))"

section \<open>Materializing the tensors of an operator (\<^verbatim>\<open>min_max_quantize_utils.py\<close>)\<close>

text \<open>Sequencing of calls that may raise: the first exception ends the computation.\<close>

definition bind_result :: "error + 'x \<Rightarrow> ('x \<Rightarrow> error + 'y) \<Rightarrow> error + 'y" where
  "bind_result m f = (case m of Inl e \<Rightarrow> Inl e | Inr x \<Rightarrow> f x)"

text \<open>\<^verbatim>\<open>xs[i]\<close> as a value: IndexError outside the range.\<close>

definition py_get :: "'x list \<Rightarrow> int \<Rightarrow> error + 'x" where
  "py_get xs i = (case py_index xs i of None \<Rightarrow> Inl IndexError | Some j \<Rightarrow> Inr (xs ! j))"

type_synonym 'a quant_params = "('a, 'a, 'a) UniformQuantParams"

text \<open>Modelled from the spec: the dataclass \<^verbatim>\<open>qtyping.OpToTensorParams\<close>, one edit of a
  tensor on behalf of an operator (owning operator index, transform sequence,
  parameters).\<close>

record 'a OpToTensorParams =
  subgraph_op_id :: int
  transformations :: "QuantTransformation list"
  parameters :: "'a quant_params option"

text \<open>Modelled from the spec: the dataclass \<^verbatim>\<open>qtyping.TensorTransformationParams\<close>
  (tensor identity, at most one producer edit, a list of consumer edits); both edits are
  absent unless given.\<close>

record 'a TensorTransformationParams =
  tensor_name :: string
  producer :: "'a OpToTensorParams option"
  consumers :: "'a OpToTensorParams list option"

text \<open>Modelled from the spec: \<^verbatim>\<open>qtyping.GraphInfo\<close> and \<^verbatim>\<open>qtyping.OpInfo\<close>, with the
  fields that the sources read.\<close>

record ('f, 'a) GraphInfo =
  subgraph_tensors :: "'f TensorT list"
  buffers :: "'a BufferT list"
  whole_model_buffer :: 'a

record OpInfo =
  op :: OperatorT
  op_name :: TFLOperationName
  subgraph_op_index :: int
  op_quant_config :: OpQuantizationConfig

text \<open>A QSV is a dictionary with the keys \<^verbatim>\<open>"min"\<close> and \<^verbatim>\<open>"max"\<close>;
  \<^verbatim>\<open>tensor_name_to_qsv\<close> maps tensor names to QSVs.\<close>

type_synonym 'a qsv = "string \<rightharpoonup> 'a"

type_synonym 'a qsv_map = "string \<rightharpoonup> 'a qsv"

text \<open>
  What the module takes from numpy and from \<^verbatim>\<open>uniform_quantize_tensor\<close>, which is not
  among the sources; \<open>'a\<close> is the type of numpy arrays and of raw buffer content.
  \<^item> \<open>np_frombuffer\<close>: \<^verbatim>\<open>np.reshape(np.frombuffer(data, dtype), shape)\<close>;
  \<^item> \<open>np_min\<close>, \<open>np_max\<close>: \<^verbatim>\<open>np.min(a, axis, keepdims=True)\<close> and \<^verbatim>\<open>np.max\<close>, the axis
    being null or a tuple;
  \<^item> \<open>np_broadcast_to\<close>: \<^verbatim>\<open>np.broadcast_to(value, shape)\<close> for the initial values 0.0 and
    6.0, written 0 and 6;
  \<^item> \<open>ndim\<close>: \<^verbatim>\<open>len(a.shape)\<close>;
  \<^item> \<open>tensor_zp_scale_from_min_max\<close>, \<open>uniform_quantize\<close> and \<open>bias_quantizer\<close>
    (\<^verbatim>\<open>symmetric_quantize_bias_tensor\<close>): the functions of \<^verbatim>\<open>uniform_quantize_tensor\<close>;
  \<^item> \<open>model_buffer_slice\<close>: \<^verbatim>\<open>model_buffer[offset : offset + size]\<close>.
\<close>

record 'a numpy_env =
  np_frombuffer :: "'a \<Rightarrow> TensorType \<Rightarrow> int list \<Rightarrow> error + 'a"
  np_min :: "'a \<Rightarrow> int list option \<Rightarrow> error + 'a"
  np_max :: "'a \<Rightarrow> int list option \<Rightarrow> error + 'a"
  np_broadcast_to :: "int \<Rightarrow> int list \<Rightarrow> 'a"
  ndim :: "'a \<Rightarrow> nat"
  tensor_zp_scale_from_min_max :: "'a \<Rightarrow> 'a \<Rightarrow> int \<Rightarrow> bool \<Rightarrow> error + 'a \<times> 'a"
  uniform_quantize :: "'a \<Rightarrow> 'a quant_params \<Rightarrow> error + 'a"
  bias_quantizer ::
    "'a option \<Rightarrow> 'a quant_params option \<Rightarrow> 'a quant_params option \<Rightarrow> error + 'a quant_params"
  model_buffer_slice :: "'a \<Rightarrow> nat \<Rightarrow> nat \<Rightarrow> 'a"

definition SUPPORTED_WEIGHT_ONLY_OPS :: "TFLOperationName set" where
  "SUPPORTED_WEIGHT_ONLY_OPS =
     {FULLY_CONNECTED, CONV_2D, BATCH_MATMUL, EMBEDDING_LOOKUP, DEPTHWISE_CONV_2D}"

definition SUPPORTED_DRQ_OPS :: "TFLOperationName set" where
  "SUPPORTED_DRQ_OPS =
     {FULLY_CONNECTED, CONV_2D, BATCH_MATMUL, EMBEDDING_LOOKUP, DEPTHWISE_CONV_2D}"

text \<open>\<^verbatim>\<open>TFL_OP_TO_WEIGHT_QUANTIZED_DIM\<close> of
  \<^verbatim>\<open>ai_edge_quantizer/utils/tfl_flatbuffer_utils.py\<close>.\<close>

definition TFL_OP_TO_WEIGHT_QUANTIZED_DIM :: "TFLOperationName \<rightharpoonup> int" where
  "TFL_OP_TO_WEIGHT_QUANTIZED_DIM =
     map_of [(FULLY_CONNECTED, 0), (DEPTHWISE_CONV_2D, 3), (CONV_2D, 0),
             (EMBEDDING_LOOKUP, 0)]"

datatype OpQuantConstraint = NO_CONSTRAIN | SAME_AS_INPUT_SCALE | SAME_AS_OUTPUT_SCALE

definition get_tensor_name :: "'f TensorT \<Rightarrow> string" where
  "get_tensor_name tensor = name tensor"

text \<open>\<^verbatim>\<open>get_tensor_data\<close> of \<^verbatim>\<open>ai_edge_quantizer/utils/tfl_flatbuffer_utils.py\<close>: null for
  a tensor whose buffer has no content.\<close>

definition get_tensor_data ::
  "'a numpy_env \<Rightarrow> 'f TensorT \<Rightarrow> 'a BufferT list \<Rightarrow> error + 'a option" where
  "get_tensor_data env tensor bufs =
     (if buffer tensor < length bufs then
        (case data (bufs ! buffer tensor) of
           None \<Rightarrow> Inr None
         | Some buffer_data \<Rightarrow>
             bind_result (np_frombuffer env buffer_data (type tensor) (shape tensor))
               (\<lambda>d. Inr (Some d)))
      else Inl IndexError)"

text \<open>\<^verbatim>\<open>get_tensor_data\<close> of \<^verbatim>\<open>utils/tfl_flatbuffer_utils.py\<close>, with the whole model
  buffer as third argument: a buffer with an offset above 1 has its content there.\<close>

definition get_tensor_data_model_buffer ::
  "'a numpy_env \<Rightarrow> 'f TensorT \<Rightarrow> 'a BufferT list \<Rightarrow> 'a \<Rightarrow> error + 'a option" where
  "get_tensor_data_model_buffer env tensor bufs model_buffer =
     (if buffer tensor < length bufs then
        (let tensor_buffer = bufs ! buffer tensor;
             buffer_data =
               (if offset tensor_buffer > 1
                then Some (model_buffer_slice env model_buffer (offset tensor_buffer)
                             (buffer_size tensor_buffer))
                else data tensor_buffer)
         in case buffer_data of
              None \<Rightarrow> Inr None
            | Some bd \<Rightarrow>
                bind_result (np_frombuffer env bd (type tensor) (shape tensor))
                  (\<lambda>d. Inr (Some d)))
      else Inl IndexError)"

text \<open>\<^verbatim>\<open>parse_fc_bmm_conv_tensors\<close> with its default indices 0, 1, 2 and 0.\<close>

definition parse_fc_bmm_conv_tensors ::
  "OperatorT \<Rightarrow> 'f TensorT list
     \<Rightarrow> error + 'f TensorT \<times> 'f TensorT \<times> 'f TensorT option \<times> 'f TensorT" where
  "parse_fc_bmm_conv_tensors operator tensor_list =
     bind_result (py_get (inputs operator) 0) (\<lambda>input_index.
     bind_result (py_get tensor_list input_index) (\<lambda>input_tensor.
     bind_result (py_get (inputs operator) 1) (\<lambda>weight_index.
     bind_result (py_get tensor_list weight_index) (\<lambda>weight_tensor.
     bind_result
       (if 2 < length (inputs operator) \<and> inputs operator ! 2 \<noteq> - 1
        then bind_result (py_get tensor_list (inputs operator ! 2)) (\<lambda>b. Inr (Some b))
        else Inr None) (\<lambda>bias_tensor.
     bind_result (py_get (outputs operator) 0) (\<lambda>output_index.
     bind_result (py_get tensor_list output_index) (\<lambda>output_tensor.
       Inr (input_tensor, weight_tensor, bias_tensor, output_tensor))))))))"

definition get_reduce_dims :: "int option \<Rightarrow> int list \<Rightarrow> int list option" where
  "get_reduce_dims quantized_dim tensor_shape =
     (case quantized_dim of
        None \<Rightarrow> None
      | Some q \<Rightarrow> Some (filter (\<lambda>rank_idx. rank_idx \<noteq> q) (map int [0..<length tensor_shape])))"

text \<open>\<^verbatim>\<open>_get_bmm_weight_quantized_dim\<close>, called with \<^verbatim>\<open>op_info.op.builtinOptions.adjY\<close>:
  the options may lack the flag and the content may be null, each an AttributeError.\<close>

definition get_bmm_weight_quantized_dim ::
  "'a numpy_env \<Rightarrow> 'a option \<Rightarrow> bool option \<Rightarrow> error + int" where
  "get_bmm_weight_quantized_dim env weight_tensor_data adj_y =
     (case adj_y of
        None \<Rightarrow> Inl AttributeError
      | Some adj \<Rightarrow>
          (case weight_tensor_data of
             None \<Rightarrow> Inl AttributeError
           | Some d \<Rightarrow>
               let rank = int (ndim env d) in
               if adj then Inr (rank - 2) else Inr (rank - 1)))"

definition init_tensor_min_max ::
  "'a numpy_env \<Rightarrow> 'f TensorT \<Rightarrow> ('f, 'a) GraphInfo \<Rightarrow> OpInfo \<Rightarrow> int \<Rightarrow> int \<Rightarrow> error + 'a qsv" where
  "init_tensor_min_max env tensor graph_info op_info init_min_val init_max_val =
     bind_result (get_tensor_data env tensor (buffers graph_info)) (\<lambda>tensor_data.
       case tensor_data of
         None \<Rightarrow>
           (let min_max_shape = replicate (length (shape tensor)) 1 in
            Inr [''min'' \<mapsto> np_broadcast_to env init_min_val min_max_shape,
                 ''max'' \<mapsto> np_broadcast_to env init_max_val min_max_shape])
       | Some d \<Rightarrow>
           bind_result
             (if channel_wise (weight_tensor_config (op_quant_config op_info)) then
                (if op_name op_info = BATCH_MATMUL
                 then bind_result
                        (get_bmm_weight_quantized_dim env (Some d)
                           (builtinOptions_adjY (op op_info)))
                        (\<lambda>q. Inr (Some q))
                 else Inr (TFL_OP_TO_WEIGHT_QUANTIZED_DIM (op_name op_info)))
              else Inr None) (\<lambda>quantized_dim.
           let reduce_dims = get_reduce_dims quantized_dim (shape tensor) in
           bind_result (np_min env d reduce_dims) (\<lambda>mn.
           bind_result (np_max env d reduce_dims) (\<lambda>mx.
             Inr [''min'' \<mapsto> mn, ''max'' \<mapsto> mx]))))"

definition get_tensor_transformation_params ::
  "string \<Rightarrow> OpInfo \<Rightarrow> bool \<Rightarrow> 'a quant_params option \<Rightarrow> bool
     \<Rightarrow> 'a TensorTransformationParams" where
  "get_tensor_transformation_params tname op_info is_inbounding_tensor quant_params
       is_constant =
     (let op2tensor_params =
            \<lparr>subgraph_op_id = subgraph_op_index op_info,
             transformations =
               get_tensor_transformations (op_quant_config op_info) is_inbounding_tensor
                 is_constant,
             parameters = quant_params\<rparr>
      in if is_inbounding_tensor
         then \<lparr>tensor_name = tname, producer = None, consumers = Some [op2tensor_params]\<rparr>
         else \<lparr>tensor_name = tname, producer = Some op2tensor_params, consumers = None\<rparr>)"

definition get_tensor_quant_params ::
  "'a numpy_env \<Rightarrow> OpInfo \<Rightarrow> 'a qsv \<Rightarrow> TensorQuantizationConfig \<Rightarrow> 'a option
     \<Rightarrow> error + 'a quant_params" where
  "get_tensor_quant_params env op_info tensor_min_max tensor_quant_config tensor_content =
     (case (tensor_min_max ''min'', tensor_min_max ''max'') of
        (Some mn, Some mx) \<Rightarrow>
          bind_result
            (tensor_zp_scale_from_min_max env mn mx
               (TensorQuantizationConfig.num_bits tensor_quant_config)
               (TensorQuantizationConfig.symmetric tensor_quant_config)) (\<lambda>(zp, sc).
          bind_result
            (if channel_wise tensor_quant_config then
               (if op_name op_info = BATCH_MATMUL
                then bind_result
                       (get_bmm_weight_quantized_dim env tensor_content
                          (builtinOptions_adjY (op op_info)))
                       (\<lambda>q. Inr (Some q))
                else (case TFL_OP_TO_WEIGHT_QUANTIZED_DIM (op_name op_info) of
                        None \<Rightarrow> Inl KeyError
                      | Some q \<Rightarrow> Inr (Some q)))
             else Inr None) (\<lambda>quantized_dim.
          let quant_params =
                \<lparr>scale = sc, zero_point = zp,
                 num_bits = TensorQuantizationConfig.num_bits tensor_quant_config,
                 symmetric = TensorQuantizationConfig.symmetric tensor_quant_config,
                 quantized_dimension = quantized_dim, quantized_data = None\<rparr>
          in case tensor_content of
               None \<Rightarrow> Inr quant_params
             | Some content \<Rightarrow>
                 bind_result (uniform_quantize env content quant_params) (\<lambda>quantized_vars.
                   Inr (quant_params\<lparr>quantized_data := Some quantized_vars\<rparr>))))
      | _ \<Rightarrow>
          Inl (ValueError (''min and max must be provided to produce tensor quantization''
                 @ '' parameters. Check if the correct calibration results are passed into''
                 @ '' the ParamsGenerator.'')))"

text \<open>The message of the ValueError that names a tensor without statistics.\<close>

definition missing_statistics :: "string \<Rightarrow> error" where
  "missing_statistics tname =
     ValueError (''Tensor '' @ tname @ '' not found in tensor_name_to_qsv. Check''
       @ '' if the correct calibration results are passed into the''
       @ '' ParamsGenerator.'')"

text \<open>The tensor config that \<^verbatim>\<open>_get_tensor_transformation_params_wrapper\<close> selects: the
  weight config for a constant of an operator with weight-only or dynamic-range support,
  the activation config otherwise.\<close>

definition select_tensor_quant_config ::
  "OpInfo \<Rightarrow> bool \<Rightarrow> TensorQuantizationConfig option" where
  "select_tensor_quant_config op_info is_constant =
     (if is_constant \<and> op_name op_info \<in> SUPPORTED_WEIGHT_ONLY_OPS \<union> SUPPORTED_DRQ_OPS
      then Some (weight_tensor_config (op_quant_config op_info))
      else activation_tensor_config (op_quant_config op_info))"

definition get_tensor_transformation_params_wrapper ::
  "'a numpy_env \<Rightarrow> 'f TensorT \<Rightarrow> bool \<Rightarrow> OpInfo \<Rightarrow> ('f, 'a) GraphInfo \<Rightarrow> 'a qsv_map
     \<Rightarrow> 'a quant_params option \<Rightarrow> error + 'a TensorTransformationParams" where
  "get_tensor_transformation_params_wrapper env tensor is_inbounding_tensor op_info
       graph_info tensor_name_to_qsv quant_params =
     (let tname = get_tensor_name tensor in
      bind_result (get_tensor_data env tensor (buffers graph_info)) (\<lambda>tensor_data.
      let is_constant = (tensor_data \<noteq> None);
          tensor_quant_config = select_tensor_quant_config op_info is_constant
      in bind_result
           (case (quant_params, tensor_quant_config) of
              (None, Some cfg) \<Rightarrow>
                bind_result
                  (case tensor_name_to_qsv tname of
                     None \<Rightarrow>
                       if is_constant
                       then init_tensor_min_max env tensor graph_info op_info 0 6
                       else Inl (missing_statistics tname)
                   | Some tensor_min_max \<Rightarrow> Inr tensor_min_max) (\<lambda>tensor_min_max.
                bind_result
                  (get_tensor_quant_params env op_info tensor_min_max cfg tensor_data)
                  (\<lambda>qp. Inr (Some qp)))
            | _ \<Rightarrow> Inr quant_params) (\<lambda>quant_params'.
         Inr (get_tensor_transformation_params tname op_info is_inbounding_tensor
                quant_params' is_constant))))"

text \<open>\<^verbatim>\<open>_materialize_op_tensors\<close>: the loop that appends to \<^verbatim>\<open>op_tensor_params\<close>.\<close>

fun materialize_op_tensors ::
  "'a numpy_env \<Rightarrow> 'a TensorTransformationParams list \<Rightarrow> 'f TensorT list \<Rightarrow> bool \<Rightarrow> OpInfo
     \<Rightarrow> ('f, 'a) GraphInfo \<Rightarrow> 'a qsv_map \<Rightarrow> 'a quant_params option
     \<Rightarrow> error + 'a TensorTransformationParams list" where
  "materialize_op_tensors env op_tensor_params [] is_inbounding_tensor op_info graph_info
       tensor_name_to_qsv quant_params = Inr op_tensor_params"
| "materialize_op_tensors env op_tensor_params (tensor # op_tensors) is_inbounding_tensor
       op_info graph_info tensor_name_to_qsv quant_params =
     bind_result
       (get_tensor_transformation_params_wrapper env tensor is_inbounding_tensor op_info
          graph_info tensor_name_to_qsv quant_params) (\<lambda>tensor_params.
     materialize_op_tensors env (op_tensor_params @ [tensor_params]) op_tensors
       is_inbounding_tensor op_info graph_info tensor_name_to_qsv quant_params)"

definition get_single_tensor_params ::
  "'a numpy_env \<Rightarrow> 'f TensorT list \<Rightarrow> bool \<Rightarrow> OpInfo \<Rightarrow> ('f, 'a) GraphInfo \<Rightarrow> 'a qsv_map
     \<Rightarrow> error + 'a TensorTransformationParams" where
  "get_single_tensor_params env tensor_list is_inbounding_tensor op_info graph_info
       tensor_name_to_qsv =
     (if length tensor_list \<noteq> 1
      then Inl (ValueError
             (''Trying to get a single tensor params with a list of multiple tensor''
              @ '' with size '' @ str_nat (length tensor_list) @ ''.''))
      else get_tensor_transformation_params_wrapper env (tensor_list ! 0)
             is_inbounding_tensor op_info graph_info tensor_name_to_qsv None)"

text \<open>The first consumer edit of a tensor, \<^verbatim>\<open>params.consumers[0]\<close>.\<close>

definition first_consumer ::
  "'a TensorTransformationParams \<Rightarrow> error + 'a OpToTensorParams" where
  "first_consumer tensor_params =
     (case consumers tensor_params of
        None \<Rightarrow> Inl TypeError
      | Some [] \<Rightarrow> Inl IndexError
      | Some (c # _) \<Rightarrow> Inr c)"

text \<open>The three materializations return the parameter list; the one with the constraint
  SAME_AS_INPUT_SCALE also writes to \<^verbatim>\<open>tensor_name_to_qsv\<close>, so each is modelled as
  returning the map too.\<close>

definition materialize_standard_op_with_same_as_input_scale ::
  "'a numpy_env \<Rightarrow> 'f TensorT list \<Rightarrow> 'f TensorT list \<Rightarrow> OpInfo \<Rightarrow> ('f, 'a) GraphInfo
     \<Rightarrow> 'a qsv_map \<Rightarrow> error + 'a TensorTransformationParams list \<times> 'a qsv_map" where
  "materialize_standard_op_with_same_as_input_scale env input_tensors output_tensors
       op_info graph_info tensor_name_to_qsv =
     bind_result
       (get_single_tensor_params env input_tensors True op_info graph_info
          tensor_name_to_qsv) (\<lambda>input_tensor_params.
     bind_result (first_consumer input_tensor_params) (\<lambda>consumer.
     bind_result
       (materialize_op_tensors env [input_tensor_params] output_tensors False op_info
          graph_info tensor_name_to_qsv (parameters consumer)) (\<lambda>op_tensor_params.
     case tensor_name_to_qsv (tensor_name input_tensor_params) of
       None \<Rightarrow> Inl KeyError
     | Some input_tensor_qsv \<Rightarrow>
         Inr (op_tensor_params,
              fold (\<lambda>output_tensor m. m(get_tensor_name output_tensor \<mapsto> input_tensor_qsv))
                output_tensors tensor_name_to_qsv))))"

definition materialize_standard_op_with_same_as_output_scale ::
  "'a numpy_env \<Rightarrow> 'f TensorT list \<Rightarrow> 'f TensorT list \<Rightarrow> OpInfo \<Rightarrow> ('f, 'a) GraphInfo
     \<Rightarrow> 'a qsv_map \<Rightarrow> error + 'a TensorTransformationParams list \<times> 'a qsv_map" where
  "materialize_standard_op_with_same_as_output_scale env input_tensors output_tensors
       op_info graph_info tensor_name_to_qsv =
     bind_result
       (get_single_tensor_params env output_tensors False op_info graph_info
          tensor_name_to_qsv) (\<lambda>output_tensor_params.
     let quant_params =
           (case producer output_tensor_params of
              None \<Rightarrow> None
            | Some p \<Rightarrow> parameters p)
     in bind_result
          (materialize_op_tensors env [] input_tensors True op_info graph_info
             tensor_name_to_qsv quant_params) (\<lambda>op_tensor_params.
        Inr (op_tensor_params @ [output_tensor_params], tensor_name_to_qsv)))"

definition materialize_standard_op_no_constraint ::
  "'a numpy_env \<Rightarrow> 'f TensorT list \<Rightarrow> 'f TensorT list \<Rightarrow> OpInfo \<Rightarrow> ('f, 'a) GraphInfo
     \<Rightarrow> 'a qsv_map \<Rightarrow> error + 'a TensorTransformationParams list \<times> 'a qsv_map" where
  "materialize_standard_op_no_constraint env input_tensors output_tensors op_info
       graph_info tensor_name_to_qsv =
     bind_result
       (materialize_op_tensors env [] input_tensors True op_info graph_info
          tensor_name_to_qsv None) (\<lambda>op_tensor_params.
     bind_result
       (materialize_op_tensors env op_tensor_params output_tensors False op_info
          graph_info tensor_name_to_qsv None) (\<lambda>op_tensor_params'.
     Inr (op_tensor_params', tensor_name_to_qsv)))"

text \<open>The two loops of \<^verbatim>\<open>materialize_standard_op\<close> that collect the tensors of the
  operator: position \<open>i\<close> counts the entries, the ignored positions and the negative
  indices are passed over.\<close>

fun collect_op_tensors ::
  "nat \<Rightarrow> int list \<Rightarrow> int list \<Rightarrow> 'f TensorT list \<Rightarrow> 'f TensorT list
     \<Rightarrow> error + 'f TensorT list" where
  "collect_op_tensors i [] to_ignore tensor_list collected = Inr collected"
| "collect_op_tensors i (tensor_index # rest) to_ignore tensor_list collected =
     (if int i \<notin> set to_ignore \<and> tensor_index \<ge> 0 then
        (if nat tensor_index < length tensor_list
         then collect_op_tensors (Suc i) rest to_ignore tensor_list
                (collected @ [tensor_list ! nat tensor_index])
         else Inl IndexError)
      else collect_op_tensors (Suc i) rest to_ignore tensor_list collected)"

definition materialize_standard_op ::
  "'a numpy_env \<Rightarrow> OpInfo \<Rightarrow> ('f, 'a) GraphInfo \<Rightarrow> 'a qsv_map \<Rightarrow> OpQuantConstraint
     \<Rightarrow> int list option \<Rightarrow> int list option
     \<Rightarrow> error + 'a TensorTransformationParams list \<times> 'a qsv_map" where
  "materialize_standard_op env op_info graph_info tensor_name_to_qsv constraint
       inputs_to_ignore outputs_to_ignore =
     (let inputs_to_ignore' = (case inputs_to_ignore of None \<Rightarrow> [] | Some l \<Rightarrow> l);
          outputs_to_ignore' = (case outputs_to_ignore of None \<Rightarrow> [] | Some l \<Rightarrow> l)
      in bind_result
           (collect_op_tensors 0 (inputs (op op_info)) inputs_to_ignore'
              (subgraph_tensors graph_info) []) (\<lambda>input_tensors.
         bind_result
           (collect_op_tensors 0 (outputs (op op_info)) outputs_to_ignore'
              (subgraph_tensors graph_info) []) (\<lambda>output_tensors.
         if constraint = SAME_AS_INPUT_SCALE then
           materialize_standard_op_with_same_as_input_scale env input_tensors
             output_tensors op_info graph_info tensor_name_to_qsv
         else if constraint = SAME_AS_OUTPUT_SCALE then
           materialize_standard_op_with_same_as_output_scale env input_tensors
             output_tensors op_info graph_info tensor_name_to_qsv
         else
           materialize_standard_op_no_constraint env input_tensors output_tensors op_info
             graph_info tensor_name_to_qsv)))"

section \<open>Fused bias (\<^verbatim>\<open>naive_min_max_quantize.materialize_fc_conv\<close>)\<close>

text \<open>The parameters of the fused bias: computed under SRQ from the bias content and the
  parameters of the first two entries of \<^verbatim>\<open>op_tensor_params\<close>, null otherwise.\<close>

definition fused_bias_quant_params ::
  "'a numpy_env \<Rightarrow> 'f TensorT \<Rightarrow> OpInfo \<Rightarrow> ('f, 'a) GraphInfo
     \<Rightarrow> 'a TensorTransformationParams list \<Rightarrow> error + 'a quant_params option" where
  "fused_bias_quant_params env bias_tensor op_info graph_info op_tensor_params =
     (if execution_mode (op_quant_config op_info) = SRQ then
        bind_result
          (get_tensor_data_model_buffer env bias_tensor (buffers graph_info)
             (whole_model_buffer graph_info)) (\<lambda>bias_content.
        bind_result (py_get op_tensor_params 0) (\<lambda>input_params.
        bind_result (first_consumer input_params) (\<lambda>input_consumer.
        bind_result (py_get op_tensor_params 1) (\<lambda>weight_params.
        bind_result (first_consumer weight_params) (\<lambda>weight_consumer.
        bind_result
          (bias_quantizer env bias_content (parameters input_consumer)
             (parameters weight_consumer)) (\<lambda>bias_quant_params.
        Inr (Some bias_quant_params)))))))
      else Inr None)"

definition materialize_fc_conv ::
  "'a numpy_env \<Rightarrow> OpInfo \<Rightarrow> ('f, 'a) GraphInfo \<Rightarrow> 'a qsv_map
     \<Rightarrow> error + 'a TensorTransformationParams list \<times> 'a qsv_map" where
  "materialize_fc_conv env op_info graph_info tensor_name_to_qsv =
     bind_result
       (materialize_standard_op env op_info graph_info tensor_name_to_qsv NO_CONSTRAIN
          (Some [2]) None) (\<lambda>(op_tensor_params, qsv').
     bind_result (parse_fc_bmm_conv_tensors (op op_info) (subgraph_tensors graph_info))
       (\<lambda>(input_tensor, weight_tensor, bias_tensor, output_tensor).
     case bias_tensor of
       None \<Rightarrow> Inr (op_tensor_params, qsv')
     | Some bias \<Rightarrow>
         bind_result
           (fused_bias_quant_params env bias op_info graph_info op_tensor_params)
           (\<lambda>bias_quant_params.
         let is_constant = (execution_mode (op_quant_config op_info) = SRQ);
             bias_params =
               get_tensor_transformation_params (get_tensor_name bias) op_info True
                 bias_quant_params is_constant
         in Inr (op_tensor_params @ [bias_params], qsv'))))"

section \<open>A small graph for the examples\<close>

text \<open>
  Arrays are lists of integers. The stand-ins for numpy and for the numeric codec are the
  simplest functions of the right shape: content is read as it is stored, the minimum and
  maximum are taken over the whole content, the scale is the maximum and the zero point 0,
  and quantizing leaves the content as it is.
\<close>

definition example_numpy_env :: "int list numpy_env" where
  "example_numpy_env =
     \<lparr>np_frombuffer = (\<lambda>d ty sh. Inr d),
      np_min = (\<lambda>d axis. Inr [fold min d (hd d)]),
      np_max = (\<lambda>d axis. Inr [fold max d (hd d)]),
      np_broadcast_to = (\<lambda>v sh. [v]),
      ndim = (\<lambda>d. 2),
      tensor_zp_scale_from_min_max = (\<lambda>mn mx bits sym. Inr ([0], mx)),
      uniform_quantize = (\<lambda>content p. Inr content),
      bias_quantizer =
        (\<lambda>content inp w.
           Inr \<lparr>scale = [1], zero_point = [0], num_bits = 32, symmetric = True,
                quantized_dimension = None, quantized_data = content\<rparr>),
      model_buffer_slice = (\<lambda>mb off sz. take sz (drop off mb))\<rparr>"

text \<open>A fully-connected operator with input, weight, fused bias and output; the input and
  the output are activations (buffer 0), the weight and the bias are constants.\<close>

definition example_graph_info :: "(int, int list) GraphInfo" where
  "example_graph_info =
     \<lparr>subgraph_tensors =
        [\<lparr>shape = [1, 2], type = FLOAT32, buffer = 0, name = ''input'', quantization = None\<rparr>,
         \<lparr>shape = [2, 2], type = FLOAT32, buffer = 1, name = ''weight'', quantization = None\<rparr>,
         \<lparr>shape = [2], type = FLOAT32, buffer = 2, name = ''bias'', quantization = None\<rparr>,
         \<lparr>shape = [1, 2], type = FLOAT32, buffer = 0, name = ''output'',
          quantization = None\<rparr>],
      buffers =
        [\<lparr>data = None, offset = 0, buffer_size = 0\<rparr>,
         \<lparr>data = Some [10, - 20, 30, 40], offset = 0, buffer_size = 0\<rparr>,
         \<lparr>data = Some [66, 88], offset = 0, buffer_size = 0\<rparr>],
      whole_model_buffer = []\<rparr>"

definition example_op_quant_config :: "OpExecutionMode \<Rightarrow> OpQuantizationConfig" where
  "example_op_quant_config mode =
     \<lparr>activation_tensor_config =
        Some \<lparr>TensorQuantizationConfig.num_bits = 8, symmetric = False, channel_wise = False,
              dtype = INT_DTYPE\<rparr>,
      weight_tensor_config =
        \<lparr>TensorQuantizationConfig.num_bits = 8, symmetric = True, channel_wise = True,
         dtype = INT_DTYPE\<rparr>,
      execution_mode = mode\<rparr>"

definition example_fc_op_info :: "OpExecutionMode \<Rightarrow> OpInfo" where
  "example_fc_op_info mode =
     \<lparr>op = \<lparr>inputs = [0, 1, 2], outputs = [3], builtinOptions_adjY = None\<rparr>,
      op_name = FULLY_CONNECTED,
      subgraph_op_index = 0,
      op_quant_config = example_op_quant_config mode\<rparr>"

text \<open>A reshape of the input, whose second input (the shape tensor) is ignored.\<close>

definition example_reshape_op_info :: OpInfo where
  "example_reshape_op_info =
     \<lparr>op = \<lparr>inputs = [0, 2], outputs = [3], builtinOptions_adjY = None\<rparr>,
      op_name = RESHAPE,
      subgraph_op_index = 1,
      op_quant_config = example_op_quant_config SRQ\<rparr>"

text \<open>Calibration statistics for the two activations.\<close>

definition example_qsv :: "int list qsv_map" where
  "example_qsv =
     map_of [(''input'', map_of [(''min'', [- 10]), (''max'', [8])]),
             (''output'', map_of [(''min'', [- 1]), (''max'', [1])])]"


text \<open>An operator with weight support and without activation config, whose single input is
  the activation \<open>input\<close> and whose output is the tensor \<open>weight\<close>, a tensor with constant
  data.\<close>

definition example_constant_output_op_info :: OpInfo where
  "example_constant_output_op_info =
     \<lparr>op = \<lparr>inputs = [0], outputs = [1], builtinOptions_adjY = None\<rparr>,
      op_name = FULLY_CONNECTED,
      subgraph_op_index = 2,
      op_quant_config =
        \<lparr>activation_tensor_config = None,
         weight_tensor_config =
           \<lparr>TensorQuantizationConfig.num_bits = 8, symmetric = True, channel_wise = True,
            dtype = INT_DTYPE\<rparr>,
         execution_mode = WEIGHT_ONLY\<rparr>\<rparr>"
section \<open>Theorems\<close>

subsection \<open>The transformation table\<close>

text \<open>
  Claim C1. For every operator quantization config and every tensor, the transformation
  sequence that \<^verbatim>\<open>get_tensor_transformations\<close> derives is the entry of the mode table
  at (execution mode, inbound, constant): under SRQ an inbound constant gets
  QUANTIZE_TENSOR, an inbound activation ADD_QUANTIZE and every outbound tensor
  ADD_DEQUANTIZE; under DRQ an inbound constant gets QUANTIZE_TENSOR and every other
  tensor NO_QUANTIZE; under WEIGHT_ONLY an inbound constant gets ADD_DEQUANTIZE and every
  other tensor NO_QUANTIZE.
\<close>

theorem get_tensor_transformations_table:
  "get_tensor_transformations cfg is_inbounding_tensor is_constant =
     mode_table (execution_mode cfg) is_inbounding_tensor is_constant
   \<and> mode_table SRQ True True = [QUANTIZE_TENSOR]
   \<and> mode_table SRQ True False = [ADD_QUANTIZE]
   \<and> mode_table SRQ False is_constant = [ADD_DEQUANTIZE]
   \<and> mode_table DRQ True True = [QUANTIZE_TENSOR]
   \<and> mode_table DRQ True False = [NO_QUANTIZE]
   \<and> mode_table DRQ False is_constant = [NO_QUANTIZE]
   \<and> mode_table WEIGHT_ONLY True True = [ADD_DEQUANTIZE]
   \<and> mode_table WEIGHT_ONLY True False = [NO_QUANTIZE]
   \<and> mode_table WEIGHT_ONLY False is_constant = [NO_QUANTIZE]"
  by (cases "execution_mode cfg"; cases is_inbounding_tensor; cases is_constant)
     (simp_all add: get_tensor_transformations_def)

theorem get_tensor_transformations_table_witness:
  "get_tensor_transformations
     \<lparr>activation_tensor_config = None,
      weight_tensor_config =
        \<lparr>TensorQuantizationConfig.num_bits = 8, symmetric = True, channel_wise = False, dtype = INT_DTYPE\<rparr>,
      execution_mode = WEIGHT_ONLY\<rparr> True True = [ADD_DEQUANTIZE]"
  using get_tensor_transformations_table
    [of "\<lparr>activation_tensor_config = None,
          weight_tensor_config =
            \<lparr>TensorQuantizationConfig.num_bits = 8, symmetric = True, channel_wise = False, dtype = INT_DTYPE\<rparr>,
          execution_mode = WEIGHT_ONLY\<rparr>" True True]
  by simp

subsection \<open>Comparing the quantization of two tensors\<close>

text \<open>
  Claim C10. When both tensors have null quantization metadata, or both have metadata
  with a null scale list, \<^verbatim>\<open>has_same_quantization\<close> returns true whatever the two
  declared element types are. The type comparison can change the outcome only when at
  least one tensor carries a non-null scale: replacing the two types by any other two
  types changes the result only then.
\<close>

theorem has_same_quantization_null_scale:
  "(quantization t1 = None \<and> quantization t2 = None
      \<longrightarrow> has_same_quantization feq t1 t2 = Inr True)
   \<and> ((\<exists>q1 q2. quantization t1 = Some q1 \<and> quantization t2 = Some q2
                \<and> QuantizationParametersT.scale q1 = None
                \<and> QuantizationParametersT.scale q2 = None)
      \<longrightarrow> has_same_quantization feq t1 t2 = Inr True)
   \<and> (has_same_quantization feq (t1\<lparr>type := ty1\<rparr>) (t2\<lparr>type := ty2\<rparr>)
         \<noteq> has_same_quantization feq t1 t2
      \<longrightarrow> (\<exists>q s. (quantization t1 = Some q \<or> quantization t2 = Some q) \<and> QuantizationParametersT.scale q = Some s))"
  by (auto simp add: has_same_quantization_def Let_def split: option.splits)

theorem has_same_quantization_null_scale_witness:
  "has_same_quantization ((=) :: int \<Rightarrow> int \<Rightarrow> bool)
     \<lparr>shape = [2], type = FLOAT32, buffer = 1, name = ''a'',
      quantization = Some \<lparr>QuantizationParametersT.scale = None, zeroPoint = None, quantizedDimension = 0\<rparr>\<rparr>
     \<lparr>shape = [2], type = INT8, buffer = 2, name = ''b'',
      quantization = Some \<lparr>QuantizationParametersT.scale = None, zeroPoint = Some [3], quantizedDimension = 1\<rparr>\<rparr>
   = (Inr True :: error + bool)
   \<and> has_same_quantization (=)
     \<lparr>shape = [2], type = FLOAT32, buffer = 1, name = ''a'',
      quantization = (None :: int QuantizationParametersT option)\<rparr>
     \<lparr>shape = [2], type = INT8, buffer = 2, name = ''b'', quantization = None\<rparr>
   = Inr True"
  using has_same_quantization_null_scale
    [of "\<lparr>shape = [2], type = FLOAT32, buffer = 1, name = ''a'',
          quantization = Some \<lparr>QuantizationParametersT.scale = None, zeroPoint = None, quantizedDimension = 0\<rparr>\<rparr>"
        "\<lparr>shape = [2], type = INT8, buffer = 2, name = ''b'',
          quantization =
            Some \<lparr>QuantizationParametersT.scale = None, zeroPoint = Some [3], quantizedDimension = 1\<rparr>\<rparr>"
        "(=) :: int \<Rightarrow> int \<Rightarrow> bool" FLOAT32 INT8]
    has_same_quantization_null_scale
    [of "\<lparr>shape = [2], type = FLOAT32, buffer = 1, name = ''a'',
          quantization = (None :: int QuantizationParametersT option)\<rparr>"
        "\<lparr>shape = [2], type = INT8, buffer = 2, name = ''b'', quantization = None\<rparr>"
        "(=)" FLOAT32 INT8]
  by simp

subsection \<open>The rule table of the recipe manager\<close>

lemma reiterate_configs_eq:
  "reiterate_configs rs c acc b =
     (acc @ map (\<lambda>e. if operation e = operation c then c else e) rs,
      b \<and> operation c \<notin> operation ` set rs)"
  by (induction rs arbitrary: acc b) auto

lemma map_of_od_setitem:
  "map_of (od_setitem st k v) k' = (if k' = k then Some v else map_of st k')"
  by (induction st) auto


lemma od_setitem_keys:
  "map fst (od_setitem st k v) = (if k \<in> fst ` set st then map fst st else map fst st @ [k])"
  by (induction st) (force split: if_splits)+

lemma od_setitem_set: "set (od_setitem st k v) \<subseteq> insert (k, v) (set st)"
  by (induction st) (auto split: if_splits)

lemma od_setitem_distinct:
  "distinct (map fst st) \<Longrightarrow> distinct (map fst (od_setitem st k v))"
  by (simp add: od_setitem_keys)

lemma wf_state_od_setitem:
  assumes "wf_state env st" and "wf_scope env (k, v)"
  shows "wf_state env (od_setitem st k v)"
proof -
  have "\<forall>s \<in> set (od_setitem st k v). wf_scope env s"
    using assms od_setitem_set [of st k v] by (auto simp add: wf_state_def list_all_iff)
  then show ?thesis
    using assms(1) by (simp add: wf_state_def list_all_iff od_setitem_distinct)
qed

lemma map_operation_replace:
  "map operation (map (\<lambda>e. if operation e = operation c then c else e) rs) = map operation rs"
  by (induction rs) auto

lemma replace_in_place:
  assumes "distinct (map operation rs)" and "i < length rs"
    and "operation (rs ! i) = operation c"
  shows "map (\<lambda>e. if operation e = operation c then c else e) rs = rs[i := c]"
proof (rule nth_equalityI)
  show "length (map (\<lambda>e. if operation e = operation c then c else e) rs) = length (rs[i := c])"
    by simp
next
  fix j
  assume "j < length (map (\<lambda>e. if operation e = operation c then c else e) rs)"
  then have j: "j < length rs" by simp
  show "map (\<lambda>e. if operation e = operation c then c else e) rs ! j = rs[i := c] ! j"
  proof (cases "j = i")
    case True
    then show ?thesis using assms j by simp
  next
    case False
    have "map operation rs ! j \<noteq> map operation rs ! i"
      using assms(1,2) j False by (simp add: nth_eq_iff_index_eq del: nth_map)
    then have "operation (rs ! j) \<noteq> operation c"
      using assms(2,3) j by simp
    then show ?thesis using j False by simp
  qed
qed

text \<open>The table that a returning call leaves, by the three cases of the code.\<close>

lemma add_quantization_config_all:
  "add_quantization_config env st rx ALL_OPS cfg k ov =
     Inr (od_setitem st rx [new_recipe env rx ALL_OPS cfg k ov])"
  by (simp add: add_quantization_config_def new_recipe_def Let_def)

lemma add_quantization_config_unfold:
  "add_quantization_config env st rx opn cfg k ov =
     (if opn = ALL_OPS then Inr (od_setitem st rx [new_recipe env rx opn cfg k ov])
      else if k \<noteq> NO_QUANT env then
        (case is_op_registered env k opn of
           Inl e \<Rightarrow> Inl e
         | Inr registered \<Rightarrow>
             if \<not> registered
             then Inl (ValueError (''Unsupported operation '' @ operation_str env opn
                     @ '' for algorithm '' @ k
                     @ ''. Please check and update algorithm manager.''))
             else Inr (od_setitem st rx
                         (stored_rules st rx (new_recipe env rx opn cfg k ov))))
      else Inr (od_setitem st rx (stored_rules st rx (new_recipe env rx opn cfg k ov))))"
proof -
  let ?c = "new_recipe env rx opn cfg k ov"
  have c: "?c = \<lparr>regex = rx, operation = opn, algorithm_key = k,
      op_config = (case cfg of None \<Rightarrow> default_op_config env | Some c \<Rightarrow> c),
      override_algorithm = ov\<rparr>"
    by (simp add: new_recipe_def)
  have store: "(case map_of st rx of
                     None \<Rightarrow> od_setitem st rx [?c]
                   | Some existing \<Rightarrow>
                       (case reiterate_configs existing ?c [] True of
                          (configs, is_new_op) \<Rightarrow>
                            od_setitem st rx
                              (if is_new_op then configs @ [?c] else configs)))
      = od_setitem st rx (stored_rules st rx ?c)"
    by (cases "map_of st rx") (auto simp add: stored_rules_def reiterate_configs_eq)
  have opn: "operation ?c = opn" by (simp add: new_recipe_def)
  show ?thesis
    unfolding add_quantization_config_def Let_def c [symmetric] store opn
    by simp
qed

lemma add_quantization_config_Inr:
  assumes "add_quantization_config env st rx opn cfg k ov = Inr st'"
    and "opn \<noteq> ALL_OPS"
  shows "registered_ok env (new_recipe env rx opn cfg k ov)
    \<and> st' = od_setitem st rx (stored_rules st rx (new_recipe env rx opn cfg k ov))"
proof -
  have "operation (new_recipe env rx opn cfg k ov) = opn"
    and "algorithm_key (new_recipe env rx opn cfg k ov) = k"
    by (simp_all add: new_recipe_def)
  then show ?thesis
    using assms unfolding add_quantization_config_unfold registered_ok_def
    by (auto split: sum.splits if_splits)
qed

lemma wf_scope_single:
  "operation r = ALL_OPS \<or> registered_ok env r \<Longrightarrow> regex r = rx \<Longrightarrow> wf_scope env (rx, [r])"
  by (auto simp add: wf_scope_def)

lemma wf_scope_replace:
  assumes "wf_scope env (rx, rs)" and "registered_ok env c" and "regex c = rx"
    and "operation c \<noteq> ALL_OPS"
  shows "wf_scope env (rx, map (\<lambda>e. if operation e = operation c then c else e) rs
           @ (if operation c \<in> operation ` set rs then [] else [c]))"
proof -
  let ?new = "map (\<lambda>e. if operation e = operation c then c else e) rs
           @ (if operation c \<in> operation ` set rs then [] else [c])"
  have ops: "map operation ?new
        = map operation rs @ (if operation c \<in> operation ` set rs then [] else [operation c])"
    by (simp add: map_operation_replace)
  have ne: "rs \<noteq> []" using assms(1) by (simp add: wf_scope_def)
  have "?new \<noteq> []" using ne by simp
  moreover have "list_all (\<lambda>r. regex r = rx) ?new"
    using assms(1,3) by (auto simp add: wf_scope_def list_all_iff)
  moreover have "distinct (map operation ?new)"
    using assms(1) unfolding ops by (auto simp add: wf_scope_def)
  moreover have "ALL_OPS \<notin> set (map operation (tl ?new))"
  proof -
    have "map operation (tl ?new) = tl (map operation ?new)" by (simp add: map_tl)
    also have "\<dots> = tl (map operation rs)
        @ (if operation c \<in> operation ` set rs then [] else [operation c])"
      unfolding ops using ne by simp
    finally show ?thesis
      using assms(1,4) by (auto simp add: wf_scope_def map_tl)
  qed
  moreover have "list_all (\<lambda>r. operation r = ALL_OPS \<or> registered_ok env r) ?new"
    using assms(1,2) by (auto simp add: wf_scope_def list_all_iff)
  ultimately show ?thesis by (simp add: wf_scope_def)
qed

lemma wf_state_lookup:
  "wf_state env st \<Longrightarrow> map_of st rx = Some rs \<Longrightarrow> wf_scope env (rx, rs)"
  by (auto simp add: wf_state_def list_all_iff dest: map_of_SomeD)

lemma wf_state_add:
  assumes "wf_state env st"
    and "add_quantization_config env st rx opn cfg k ov = Inr st'"
  shows "wf_state env st'"
proof (cases "opn = ALL_OPS")
  case True
  then have "st' = od_setitem st rx [new_recipe env rx ALL_OPS cfg k ov]"
    using assms(2) by (simp add: add_quantization_config_all)
  then show ?thesis
    using assms(1) by (simp add: wf_state_od_setitem wf_scope_single new_recipe_def)
next
  case False
  let ?c = "new_recipe env rx opn cfg k ov"
  note r = add_quantization_config_Inr [OF assms(2) False]
  have c: "regex ?c = rx" "operation ?c = opn" by (simp_all add: new_recipe_def)
  have "wf_scope env (rx, stored_rules st rx ?c)"
  proof (cases "map_of st rx")
    case None
    then show ?thesis
      using r c by (simp add: stored_rules_def wf_scope_single)
  next
    case (Some rs)
    have "wf_scope env (rx, map (\<lambda>e. if operation e = operation ?c then ?c else e) rs
           @ (if operation ?c \<in> operation ` set rs then [] else [?c]))"
      using wf_state_lookup [OF assms(1) Some] r c False by (intro wf_scope_replace) simp_all
    then show ?thesis
      using Some by (simp add: stored_rules_def)
  qed
  then show ?thesis
    using r assms(1) by (simp add: wf_state_od_setitem)
qed

lemma reachable_wf_state: "reachable env st \<Longrightarrow> wf_state env st"
proof (induction rule: reachable.induct)
  case reachable_init
  show ?case by (simp add: wf_state_def)
next
  case (reachable_add st rx operation_name op_config_arg alg_key override st')
  then show ?case by (auto intro: wf_state_add)
qed














lemma scan_recipes_foldl:
  "scan_recipes rs t result
   = foldl accept_rule result (filter (\<lambda>r. operation r = ALL_OPS \<or> operation r = t) rs)"
proof (induction rs arbitrary: result)
  case Nil
  show ?case by simp
next
  case (Cons r rs)
  obtain k c where res: "result = (k, c)" by (cases result)
  show ?case
    unfolding res using Cons.IH by (auto simp add: accept_rule_def)
qed

lemma scan_scopes_resolve:
  "scan_scopes env st t s result
   = (if list_ex (\<lambda>sc. re_search env (fst sc) s = None) st then Inl ReError
      else Inr (foldl accept_rule result (applicable_rules env st t s)))"
proof (induction st arbitrary: result)
  case Nil
  show ?case by (simp add: applicable_rules_def)
next
  case (Cons sc st)
  obtain rx rs where sc: "sc = (rx, rs)" by (cases sc)
  show ?case
  proof (cases "re_search env rx s")
    case None
    then show ?thesis by (simp add: sc)
  next
    case (Some found)
    then show ?thesis
      using Cons.IH by (simp add: sc applicable_rules_def scan_recipes_foldl)
  qed
qed








text \<open>
  Claim C3. After any sequence of calls of \<^verbatim>\<open>add_quantization_config\<close>, the rule list
  of every scope holds at most one rule per target operation. Adding a rule for an
  operation that has a rule in the scope puts the new rule at the position of the old one
  and moves neither the other rules nor the scope; adding a rule for ALL always returns
  and leaves the scope with the new rule alone.
\<close>

theorem add_quantization_config_one_rule_per_operation:
  assumes "reachable env st"
  shows "((rx, rs) \<in> set st \<longrightarrow> distinct (map operation rs))
    \<and> (map_of st rx = Some rs \<and> i < length rs \<and> operation (rs ! i) = opn \<and> opn \<noteq> ALL_OPS
         \<and> add_quantization_config env st rx opn cfg k ov = Inr st'
       \<longrightarrow> map_of st' rx = Some (rs[i := new_recipe env rx opn cfg k ov])
           \<and> map fst st' = map fst st)
    \<and> add_quantization_config env st rx ALL_OPS cfg k ov
        = Inr (od_setitem st rx [new_recipe env rx ALL_OPS cfg k ov])
    \<and> map_of (od_setitem st rx [new_recipe env rx ALL_OPS cfg k ov]) rx
        = Some [new_recipe env rx ALL_OPS cfg k ov]"
proof -
  have wf: "wf_state env st" using assms by (rule reachable_wf_state)
  have one: "(rx, rs) \<in> set st \<longrightarrow> distinct (map operation rs)"
    using wf by (auto simp add: wf_state_def wf_scope_def list_all_iff)
  have two: "map_of st' rx = Some (rs[i := new_recipe env rx opn cfg k ov])
           \<and> map fst st' = map fst st"
    if lookup: "map_of st rx = Some rs" and i: "i < length rs"
      and opn: "operation (rs ! i) = opn" "opn \<noteq> ALL_OPS"
      and add: "add_quantization_config env st rx opn cfg k ov = Inr st'"
  proof -
    let ?c = "new_recipe env rx opn cfg k ov"
    have c: "operation ?c = opn" by (simp add: new_recipe_def)
    have dist: "distinct (map operation rs)"
      using wf_state_lookup [OF wf lookup] by (simp add: wf_scope_def)
    have mem: "opn \<in> operation ` set rs"
      using i opn(1) by (metis imageI nth_mem)
    have "stored_rules st rx ?c = map (\<lambda>e. if operation e = operation ?c then ?c else e) rs"
      using lookup mem c by (simp add: stored_rules_def)
    also have "\<dots> = rs[i := ?c]"
      using dist i opn(1) c by (intro replace_in_place) simp_all
    finally have stored: "stored_rules st rx ?c = rs[i := ?c]" .
    have st': "st' = od_setitem st rx (rs[i := ?c])"
      using add_quantization_config_Inr [OF add opn(2)] stored by simp
    have "rx \<in> fst ` set st"
      using lookup by (metis map_of_eq_None_iff option.distinct(1))
    then show ?thesis
      by (simp add: st' map_of_od_setitem od_setitem_keys)
  qed
  show ?thesis
    using one two by (simp add: add_quantization_config_all map_of_od_setitem)
qed

theorem add_quantization_config_one_rule_per_operation_witness:
  "reachable example_env
     [(''dense'',
       [\<lparr>regex = ''dense'', operation = FULLY_CONNECTED, algorithm_key = ''ptq'',
         op_config = 1, override_algorithm = True\<rparr>,
        \<lparr>regex = ''dense'', operation = CONV_2D, algorithm_key = ''ptq'',
         op_config = 2, override_algorithm = True\<rparr>])]
   \<and> add_quantization_config example_env
       [(''dense'',
         [\<lparr>regex = ''dense'', operation = FULLY_CONNECTED, algorithm_key = ''ptq'',
           op_config = 1, override_algorithm = True\<rparr>,
          \<lparr>regex = ''dense'', operation = CONV_2D, algorithm_key = ''ptq'',
           op_config = 2, override_algorithm = True\<rparr>])]
       ''dense'' FULLY_CONNECTED (Some 3) ''ptq'' False
     = Inr [(''dense'',
         [\<lparr>regex = ''dense'', operation = FULLY_CONNECTED, algorithm_key = ''ptq'',
           op_config = 3, override_algorithm = False\<rparr>,
          \<lparr>regex = ''dense'', operation = CONV_2D, algorithm_key = ''ptq'',
           op_config = 2, override_algorithm = True\<rparr>])]
   \<and> add_quantization_config example_env
       [(''dense'',
         [\<lparr>regex = ''dense'', operation = FULLY_CONNECTED, algorithm_key = ''ptq'',
           op_config = 1, override_algorithm = True\<rparr>,
          \<lparr>regex = ''dense'', operation = CONV_2D, algorithm_key = ''ptq'',
           op_config = 2, override_algorithm = True\<rparr>])]
       ''dense'' ALL_OPS None ''ptq'' True
     = Inr [(''dense'',
         [\<lparr>regex = ''dense'', operation = ALL_OPS, algorithm_key = ''ptq'',
           op_config = 0, override_algorithm = True\<rparr>])]"
proof -
  let ?fc = "\<lparr>regex = ''dense'', operation = FULLY_CONNECTED, algorithm_key = ''ptq'',
         op_config = 1 :: nat, override_algorithm = True\<rparr>"
  let ?conv = "\<lparr>regex = ''dense'', operation = CONV_2D, algorithm_key = ''ptq'',
         op_config = 2 :: nat, override_algorithm = True\<rparr>"
  have r1: "reachable example_env [(''dense'', [?fc])]"
    by (rule reachable_add [OF reachable_init, where rx = "''dense''"
          and operation_name = FULLY_CONNECTED and op_config_arg = "Some 1"
          and alg_key = "''ptq''" and override = True])
      (simp add: add_quantization_config_def example_env_def Let_def)
  have r2: "reachable example_env [(''dense'', [?fc, ?conv])]"
    by (rule reachable_add [OF r1, where rx = "''dense''"
          and operation_name = CONV_2D and op_config_arg = "Some 2"
          and alg_key = "''ptq''" and override = True])
      (simp add: add_quantization_config_def example_env_def Let_def)
  have add: "add_quantization_config example_env [(''dense'', [?fc, ?conv])]
       ''dense'' FULLY_CONNECTED (Some 3) ''ptq'' False
     = Inr [(''dense'',
         [\<lparr>regex = ''dense'', operation = FULLY_CONNECTED, algorithm_key = ''ptq'',
           op_config = 3, override_algorithm = False\<rparr>, ?conv])]"
    by (simp add: add_quantization_config_def example_env_def Let_def)
  show ?thesis
    using r2 add
      add_quantization_config_one_rule_per_operation [OF r2, of "''dense''" "[?fc, ?conv]" 0
        FULLY_CONNECTED "Some 3" "''ptq''" False
        "[(''dense'',
         [\<lparr>regex = ''dense'', operation = FULLY_CONNECTED, algorithm_key = ''ptq'',
           op_config = 3, override_algorithm = False\<rparr>, ?conv])]"]
      add_quantization_config_one_rule_per_operation [OF r2, of "''dense''" "[?fc, ?conv]" 0
        FULLY_CONNECTED None "''ptq''" True "[]"]
    by (simp add: new_recipe_def example_env_def)
qed

text \<open>
  Claim C2, as the code has it. Resolution scans the scopes in insertion order and, in
  each scope whose regex finds a match in the scope name, the rules in order whose target
  is ALL or the queried operator. A rule whose algorithm differs from the running
  result's is adopted if its override flag is true and skipped otherwise, algorithm and
  config both staying; a rule with the running algorithm always replaces the running
  config. A regex that does not compile makes the call raise. In particular, when exactly
  two rules apply to a query, the first of them is adopted (its override flag is true, or
  its algorithm is the "no quantization" one) and the second has another algorithm and
  override false, the call returns the first rule's algorithm and config.
\<close>

theorem get_quantization_configs_resolution:
  "get_quantization_configs (env :: ('c, 'd) recipe_env) st t s = resolve_spec env st t s
   \<and> (algorithm_key r \<noteq> k \<and> override_algorithm r
        \<longrightarrow> accept_rule (k, c :: 'c) r = (algorithm_key r, op_config r))
   \<and> (algorithm_key r \<noteq> k \<and> \<not> override_algorithm r \<longrightarrow> accept_rule (k, c) r = (k, c))
   \<and> (algorithm_key r = k \<longrightarrow> accept_rule (k, c) r = (k, op_config r))
   \<and> (\<not> list_ex (\<lambda>sc. re_search env (fst sc) s = None) st
        \<and> applicable_rules env st t s = [r1, r2]
        \<and> (override_algorithm r1 \<or> algorithm_key r1 = NO_QUANT env)
        \<and> algorithm_key r2 \<noteq> algorithm_key r1 \<and> \<not> override_algorithm r2
      \<longrightarrow> get_quantization_configs env st t s = Inr (algorithm_key r1, op_config r1))"
proof -
  have eq: "get_quantization_configs env st t s = resolve_spec env st t s"
    by (simp add: get_quantization_configs_def resolve_spec_def scan_scopes_resolve)
  have "resolve_spec env st t s = Inr (algorithm_key r1, op_config r1)"
    if "\<not> list_ex (\<lambda>sc. re_search env (fst sc) s = None) st"
      and "applicable_rules env st t s = [r1, r2]"
      and "override_algorithm r1 \<or> algorithm_key r1 = NO_QUANT env"
      and "algorithm_key r2 \<noteq> algorithm_key r1" and "\<not> override_algorithm r2"
    using that by (auto simp add: resolve_spec_def accept_rule_def)
  then show ?thesis
    using eq by (simp add: accept_rule_def)
qed

theorem get_quantization_configs_resolution_witness:
  "get_quantization_configs example_env
     [(''model'',
       [\<lparr>regex = ''model'', operation = FULLY_CONNECTED, algorithm_key = ''ptq'',
         op_config = 1, override_algorithm = True\<rparr>]),
      (''dense'',
       [\<lparr>regex = ''dense'', operation = FULLY_CONNECTED, algorithm_key = ''other'',
         op_config = 2, override_algorithm = False\<rparr>])]
     FULLY_CONNECTED ''model/dense_1'' = Inr (''ptq'', 1)"
  using get_quantization_configs_resolution
    [of example_env
      "[(''model'',
       [\<lparr>regex = ''model'', operation = FULLY_CONNECTED, algorithm_key = ''ptq'',
         op_config = 1, override_algorithm = True\<rparr>]),
      (''dense'',
       [\<lparr>regex = ''dense'', operation = FULLY_CONNECTED, algorithm_key = ''other'',
         op_config = 2, override_algorithm = False\<rparr>])]"
      FULLY_CONNECTED "''model/dense_1''"
      "\<lparr>regex = ''dense'', operation = FULLY_CONNECTED, algorithm_key = ''other'',
         op_config = 2 :: nat, override_algorithm = False\<rparr>" "''ptq''" 1
      "\<lparr>regex = ''model'', operation = FULLY_CONNECTED, algorithm_key = ''ptq'',
         op_config = 1, override_algorithm = True\<rparr>"
      "\<lparr>regex = ''dense'', operation = FULLY_CONNECTED, algorithm_key = ''other'',
         op_config = 2, override_algorithm = False\<rparr>"]
  by (simp add: applicable_rules_def example_env_def resolve_spec_def accept_rule_def)

text \<open>
  The claim as it was stated fails twice. Two rules of one scope for one operator never
  stand together: the second call replaces the first rule, and its rule, with override
  false and an algorithm other than "no quantization", is then ignored. And a first rule
  with override false is ignored like any other, whatever the second does. In both cases
  the call returns the "no quantization" pair, not the first rule's.
\<close>

theorem get_quantization_configs_override_counterexample:
  "add_quantization_config example_env [] ''dense'' FULLY_CONNECTED (Some 1) ''ptq'' True
     = Inr [(''dense'',
         [\<lparr>regex = ''dense'', operation = FULLY_CONNECTED, algorithm_key = ''ptq'',
           op_config = 1, override_algorithm = True\<rparr>])]
   \<and> add_quantization_config example_env
       [(''dense'',
         [\<lparr>regex = ''dense'', operation = FULLY_CONNECTED, algorithm_key = ''ptq'',
           op_config = 1, override_algorithm = True\<rparr>])]
       ''dense'' FULLY_CONNECTED (Some 2) ''other'' False
     = Inr [(''dense'',
         [\<lparr>regex = ''dense'', operation = FULLY_CONNECTED, algorithm_key = ''other'',
           op_config = 2, override_algorithm = False\<rparr>])]
   \<and> get_quantization_configs example_env
       [(''dense'',
         [\<lparr>regex = ''dense'', operation = FULLY_CONNECTED, algorithm_key = ''other'',
           op_config = 2, override_algorithm = False\<rparr>])]
       FULLY_CONNECTED ''model/dense_1'' = Inr (''no_quant'', 0)
   \<and> get_quantization_configs example_env
       [(''model'',
         [\<lparr>regex = ''model'', operation = FULLY_CONNECTED, algorithm_key = ''ptq'',
           op_config = 1, override_algorithm = False\<rparr>]),
        (''dense'',
         [\<lparr>regex = ''dense'', operation = FULLY_CONNECTED, algorithm_key = ''other'',
           op_config = 2, override_algorithm = False\<rparr>])]
       FULLY_CONNECTED ''model/dense_1'' = Inr (''no_quant'', 0)"
  by (simp add: add_quantization_config_def get_quantization_configs_def example_env_def
      Let_def)


subsection \<open>Bias quantization\<close>

text \<open>
  Claim C6. For every bias tensor and every pair of input and weight quantization
  parameters, the parameters that the bias quantization routine computes are symmetric
  with every zero point 0, one for each scale; the scale is the product of the input
  scale and the weight scale, entry by entry of the weight scale when the input has one
  scale (one entry per channel when the weight is per-channel, a single value otherwise);
  the bit-width is 32 when the input bit-width is 8 and 64 for every other input
  bit-width. The routine returns these parameters with the quantized bias values, unless
  quantizing the values fails.
\<close>

theorem symmetric_quantize_bias_tensor_params:
  "symmetric (bias_quant_params fmul inp w)
   \<and> list_all (\<lambda>z. z = 0) (zero_point (bias_quant_params fmul inp w))
   \<and> length (zero_point (bias_quant_params fmul inp w))
       = length (scale (bias_quant_params fmul inp w))
   \<and> (scale inp = [s] \<longrightarrow> scale (bias_quant_params fmul inp w) = map (fmul s) (scale w))
   \<and> (scale inp = [s] \<and> scale w = [sw] \<longrightarrow> scale (bias_quant_params fmul inp w) = [fmul s sw])
   \<and> (num_bits inp = 8 \<longrightarrow> num_bits (bias_quant_params fmul inp w) = 32)
   \<and> (num_bits inp \<noteq> 8 \<longrightarrow> num_bits (bias_quant_params fmul inp w) = 64)
   \<and> symmetric_quantize_bias_tensor fmul quantize bias_content inp w
       = (case quantize bias_content (bias_quant_params fmul inp w) of
            Inl e \<Rightarrow> Inl e
          | Inr q \<Rightarrow> Inr ((bias_quant_params fmul inp w)\<lparr>quantized_data := Some q\<rparr>))
   \<and> (symmetric_quantize_bias_tensor fmul quantize bias_content inp w = Inr r
        \<longrightarrow> symmetric r \<and> list_all (\<lambda>z. z = 0) (zero_point r)
            \<and> scale r = scale (bias_quant_params fmul inp w)
            \<and> num_bits r = (if num_bits inp = 8 then 32 else 64))"
  by (auto simp add: bias_quant_params_def symmetric_quantize_bias_tensor_def Let_def
      list_all_iff split: sum.splits)

theorem symmetric_quantize_bias_tensor_params_witness:
  "symmetric_quantize_bias_tensor (\<lambda>a b. a * b) (\<lambda>b p. Inr (map (\<lambda>x. x div 2) b)) [66, 88]
     \<lparr>scale = [4 :: int], zero_point = [10], num_bits = 8, symmetric = False,
      quantized_dimension = None, quantized_data = None\<rparr>
     \<lparr>scale = [2, 3], zero_point = [0, 0], num_bits = 4, symmetric = True,
      quantized_dimension = Some 0, quantized_data = None\<rparr>
   = Inr \<lparr>scale = [8, 12], zero_point = [0, 0], num_bits = 32, symmetric = True,
          quantized_dimension = Some 0, quantized_data = Some [33, 44 :: int]\<rparr>"
  using symmetric_quantize_bias_tensor_params
    [of "\<lambda>a b. a * b"
      "\<lparr>scale = [4 :: int], zero_point = [10], num_bits = 8, symmetric = False,
        quantized_dimension = None, quantized_data = None :: int list option\<rparr>"
      "\<lparr>scale = [2, 3], zero_point = [0, 0], num_bits = 4, symmetric = True,
        quantized_dimension = Some 0, quantized_data = None\<rparr>"
      4 2 "\<lambda>b p. Inr (map (\<lambda>x. x div 2) b)" "[66, 88]"
      "\<lparr>scale = [8, 12], zero_point = [0, 0], num_bits = 32, symmetric = True,
        quantized_dimension = Some 0, quantized_data = Some [33, 44 :: int]\<rparr>"]
  by (simp add: bias_quant_params_def)

subsection \<open>The edit QUANTIZE_TENSOR\<close>

lemma py_index_in_range: "py_index xs i = Some j \<Longrightarrow> j < length xs"
  by (auto simp add: py_index_def Let_def split: if_splits)

text \<open>
  Claim C7, as the code has it. The edit QUANTIZE_TENSOR is applied to a tensor of the
  subgraph whose buffer, when it is written, is in the buffer list. The declared type goes
  by the bit-width: INT8 for every width up to 8 (4 included), INT16, INT32 and INT64 for
  16, 32 and 64. For such a width the call returns the entry with no operator added and
  the tensor's own id as output tensor, writes scale, zero point and quantized dimension,
  and sets the declared type. For any other width it raises ValueError: the scale, zero
  point and quantized dimension have been written by then, and the declared type stays as
  it was. In both cases the data of the tensor's buffer is overwritten with the quantized
  bytes when quantized data is provided and the tensor's buffer index is not 0, the empty
  buffer; every other tensor, every other buffer and all operators stay as they are, as do
  the tensor's shape, name and buffer index.
\<close>

theorem quantize_tensor_edit:
  assumes "py_index (tensors subgraph) tensor_id = Some i"
    and "buffer (tensors subgraph ! i) \<noteq> 0 \<and> quantized_data quant_params \<noteq> None
         \<longrightarrow> buffer (tensors subgraph ! i) < length bufs"
    and "quantize_tensor conv tensor_id op_codes bufs subgraph producer_id consumer_ids
           quant_params = (outcome, bufs', subgraph')"
  shows "(num_bits quant_params \<le> 8 \<and> ty = INT8
          \<or> num_bits quant_params = 16 \<and> ty = INT16
          \<or> num_bits quant_params = 32 \<and> ty = INT32
          \<or> num_bits quant_params = 64 \<and> ty = INT64
       \<longrightarrow> outcome = Inr \<lparr>op_id = 0, num_ops_added = 0, output_tensor_id = tensor_id\<rparr>
           \<and> tensors subgraph' ! i
             = (tensors subgraph ! i)
                 \<lparr>type := ty,
                  quantization := Some (flatbuffer_quantization conv quant_params)\<rparr>)
    \<and> (8 < num_bits quant_params \<and> num_bits quant_params \<noteq> 16
        \<and> num_bits quant_params \<noteq> 32 \<and> num_bits quant_params \<noteq> 64
       \<longrightarrow> outcome = Inl (ValueError (''Unsupported quant params: ''
                                @ str_int (num_bits quant_params)))
           \<and> tensors subgraph' ! i
             = (tensors subgraph ! i)
                 \<lparr>quantization := Some (flatbuffer_quantization conv quant_params)\<rparr>)
    \<and> operators subgraph' = operators subgraph
    \<and> length (tensors subgraph') = length (tensors subgraph)
    \<and> (j \<noteq> i \<longrightarrow> tensors subgraph' ! j = tensors subgraph ! j)
    \<and> bufs'
        = (case quantized_data quant_params of
             None \<Rightarrow> bufs
           | Some d \<Rightarrow>
               if buffer (tensors subgraph ! i) \<noteq> 0
               then bufs[buffer (tensors subgraph ! i) :=
                      (bufs ! buffer (tensors subgraph ! i))
                        \<lparr>data := Some (to_uint8 conv d)\<rparr>]
               else bufs)"
proof -
  have i: "i < length (tensors subgraph)"
    using assms(1) by (rule py_index_in_range)
  show ?thesis
  proof (cases "quant_params_to_tflite_type (num_bits quant_params)")
    case (Inl err)
    then show ?thesis
      using assms i
      by (auto simp add: quantize_tensor_def Let_def quant_params_to_tflite_type_def
          split: option.splits if_splits)
  next
    case (Inr t)
    then show ?thesis
      using assms i
      by (auto simp add: quantize_tensor_def Let_def quant_params_to_tflite_type_def
          split: option.splits if_splits)
  qed
qed

theorem quantize_tensor_edit_witness:
  "quantize_tensor example_conversions 1 ([] :: nat list) example_buffers example_subgraph (- 1) [0]
     \<lparr>scale = [3], zero_point = [0], num_bits = 8, symmetric = True,
      quantized_dimension = None, quantized_data = Some [1, 2, 3, 4]\<rparr>
   = (Inr \<lparr>op_id = 0, num_ops_added = 0, output_tensor_id = 1\<rparr>,
      [\<lparr>data = None, offset = 0, buffer_size = 0\<rparr>,
       \<lparr>data = Some [1, 2, 3, 4], offset = 0, buffer_size = 0\<rparr>],
      \<lparr>tensors =
        [\<lparr>shape = [1, 2], type = FLOAT32, buffer = 0, name = ''input'', quantization = None\<rparr>,
         \<lparr>shape = [2, 2], type = INT8, buffer = 1, name = ''weight'',
          quantization =
            Some \<lparr>QuantizationParametersT.scale = Some [3], zeroPoint = Some [0],
                  quantizedDimension = 0\<rparr>\<rparr>,
         \<lparr>shape = [1, 2], type = FLOAT32, buffer = 0, name = ''output'',
          quantization = None\<rparr>],
       operators = [\<lparr>inputs = [0, 1, - 1], outputs = [2], builtinOptions_adjY = None\<rparr>]\<rparr>)
   \<and> (\<exists>bufs' subgraph'.
         quantize_tensor example_conversions 1 ([] :: nat list) example_buffers example_subgraph (- 1) [0]
           \<lparr>scale = [3], zero_point = [0], num_bits = 24, symmetric = True,
            quantized_dimension = Some 1, quantized_data = None\<rparr>
         = (Inl (ValueError ''Unsupported quant params: 24''), bufs', subgraph')
         \<and> bufs' = example_buffers
         \<and> tensors subgraph' ! 1
           = \<lparr>shape = [2, 2], type = FLOAT32, buffer = 1, name = ''weight'',
              quantization =
                Some \<lparr>QuantizationParametersT.scale = Some [3], zeroPoint = Some [0],
                      quantizedDimension = 1\<rparr>\<rparr>)"
proof -
  let ?qp = "\<lparr>scale = [3 :: int], zero_point = [0 :: int], num_bits = 8, symmetric = True,
      quantized_dimension = None, quantized_data = Some [1, 2, 3, 4 :: int]\<rparr>"
  let ?qe = "\<lparr>scale = [3 :: int], zero_point = [0 :: int], num_bits = 24, symmetric = True,
      quantized_dimension = Some 1, quantized_data = None :: int list option\<rparr>"
  obtain outcome bufs' subgraph' where run:
    "quantize_tensor example_conversions 1 ([] :: nat list) example_buffers example_subgraph
       (- 1) [0] ?qp = (outcome, bufs', subgraph')"
    by (cases "quantize_tensor example_conversions 1 ([] :: nat list) example_buffers
          example_subgraph (- 1) [0] ?qp") auto
  obtain outcome_e bufs_e subgraph_e where run_e:
    "quantize_tensor example_conversions 1 ([] :: nat list) example_buffers example_subgraph
       (- 1) [0] ?qe = (outcome_e, bufs_e, subgraph_e)"
    by (cases "quantize_tensor example_conversions 1 ([] :: nat list) example_buffers
          example_subgraph (- 1) [0] ?qe") auto
  have idx: "py_index (tensors example_subgraph) 1 = Some 1"
    by (simp add: py_index_def example_subgraph_def)
  have buf: "buffer (tensors example_subgraph ! 1) \<noteq> 0 \<and> quantized_data ?qp \<noteq> None
         \<longrightarrow> buffer (tensors example_subgraph ! 1) < length example_buffers"
    by (simp add: example_subgraph_def example_buffers_def)
  have buf_e: "buffer (tensors example_subgraph ! 1) \<noteq> 0 \<and> quantized_data ?qe \<noteq> None
         \<longrightarrow> buffer (tensors example_subgraph ! 1) < length example_buffers"
    by simp
  note t = quantize_tensor_edit [where ty = INT8, OF idx buf run]
  have "outcome = Inr \<lparr>op_id = 0, num_ops_added = 0, output_tensor_id = 1\<rparr>"
    using t by simp
  then have first: "quantize_tensor example_conversions 1 ([] :: nat list) example_buffers
      example_subgraph (- 1) [0] ?qp
    = (Inr \<lparr>op_id = 0, num_ops_added = 0, output_tensor_id = 1\<rparr>,
      [\<lparr>data = None, offset = 0, buffer_size = 0\<rparr>,
       \<lparr>data = Some [1, 2, 3, 4], offset = 0, buffer_size = 0\<rparr>],
      \<lparr>tensors =
        [\<lparr>shape = [1, 2], type = FLOAT32, buffer = 0, name = ''input'', quantization = None\<rparr>,
         \<lparr>shape = [2, 2], type = INT8, buffer = 1, name = ''weight'',
          quantization =
            Some \<lparr>QuantizationParametersT.scale = Some [3], zeroPoint = Some [0],
                  quantizedDimension = 0\<rparr>\<rparr>,
         \<lparr>shape = [1, 2], type = FLOAT32, buffer = 0, name = ''output'',
          quantization = None\<rparr>],
       operators = [\<lparr>inputs = [0, 1, - 1], outputs = [2], builtinOptions_adjY = None\<rparr>]\<rparr>)"
    using run
    by (simp add: quantize_tensor_def py_index_def example_subgraph_def example_buffers_def
        example_conversions_def flatbuffer_quantization_def quant_params_to_tflite_type_def
        Let_def)
  note e = quantize_tensor_edit [OF idx buf_e run_e]
  have "outcome_e = Inl (ValueError ''Unsupported quant params: 24'')"
    and "bufs_e = example_buffers"
    and "tensors subgraph_e ! 1
        = \<lparr>shape = [2, 2], type = FLOAT32, buffer = 1, name = ''weight'',
           quantization =
             Some \<lparr>QuantizationParametersT.scale = Some [3], zeroPoint = Some [0],
                   quantizedDimension = 1\<rparr>\<rparr>"
    using e
    by (simp_all add: str_int_def str_nat.simps digit_char_def example_subgraph_def
        example_conversions_def flatbuffer_quantization_def)
  then show ?thesis
    using first run_e by simp
qed

text \<open>
  The claim as it was stated fails where the code guards. With a bit-width of 12 the call
  raises after the buffer and the quantization metadata have been written: it returns no
  entry and the declared type stays FLOAT32. A tensor whose buffer index is 0 keeps
  every buffer as it was although quantized data is provided. And with a bit-width of 4
  the declared type becomes INT8, not the 4-bit type INT4 of the schema.
\<close>

theorem quantize_tensor_counterexample:
  "quantize_tensor example_conversions 1 [] example_buffers example_subgraph (- 1) [0]
     \<lparr>scale = [3], zero_point = [0], num_bits = 12, symmetric = True,
      quantized_dimension = None, quantized_data = Some [1, 2, 3, 4]\<rparr>
   = (Inl (ValueError ''Unsupported quant params: 12''),
      [\<lparr>data = None, offset = 0, buffer_size = 0\<rparr>,
       \<lparr>data = Some [1, 2, 3, 4], offset = 0, buffer_size = 0\<rparr>],
      \<lparr>tensors =
        [\<lparr>shape = [1, 2], type = FLOAT32, buffer = 0, name = ''input'', quantization = None\<rparr>,
         \<lparr>shape = [2, 2], type = FLOAT32, buffer = 1, name = ''weight'',
          quantization =
            Some \<lparr>QuantizationParametersT.scale = Some [3], zeroPoint = Some [0],
                  quantizedDimension = 0\<rparr>\<rparr>,
         \<lparr>shape = [1, 2], type = FLOAT32, buffer = 0, name = ''output'',
          quantization = None\<rparr>],
       operators = [\<lparr>inputs = [0, 1, - 1], outputs = [2], builtinOptions_adjY = None\<rparr>]\<rparr>)
   \<and> fst (snd (quantize_tensor example_conversions 0 [] example_buffers example_subgraph
       (- 1) [0]
       \<lparr>scale = [3], zero_point = [0], num_bits = 8, symmetric = True,
        quantized_dimension = None, quantized_data = Some [1, 2, 3, 4]\<rparr>))
     = example_buffers
   \<and> quantize_tensor example_conversions 1 [] example_buffers example_subgraph (- 1) [0]
       \<lparr>scale = [3], zero_point = [0], num_bits = 4, symmetric = True,
        quantized_dimension = None, quantized_data = Some [1, 2, 3, 4]\<rparr>
     = (Inr \<lparr>op_id = 0, num_ops_added = 0, output_tensor_id = 1\<rparr>,
        [\<lparr>data = None, offset = 0, buffer_size = 0\<rparr>,
         \<lparr>data = Some [1, 2, 3, 4], offset = 0, buffer_size = 0\<rparr>],
        \<lparr>tensors =
          [\<lparr>shape = [1, 2], type = FLOAT32, buffer = 0, name = ''input'',
            quantization = None\<rparr>,
           \<lparr>shape = [2, 2], type = INT8, buffer = 1, name = ''weight'',
            quantization =
              Some \<lparr>QuantizationParametersT.scale = Some [3], zeroPoint = Some [0],
                    quantizedDimension = 0\<rparr>\<rparr>,
           \<lparr>shape = [1, 2], type = FLOAT32, buffer = 0, name = ''output'',
            quantization = None\<rparr>],
         operators = [\<lparr>inputs = [0, 1, - 1], outputs = [2], builtinOptions_adjY = None\<rparr>]\<rparr>)"
  by (simp add: quantize_tensor_def py_index_def example_subgraph_def example_buffers_def
      example_conversions_def flatbuffer_quantization_def quant_params_to_tflite_type_def
      Let_def str_int_def str_nat.simps digit_char_def)
subsection \<open>Materializing one tensor\<close>

lemma bind_result_Inl: "bind_result (Inl e) f = Inl e"
  by (simp add: bind_result_def)

lemma bind_result_Inr: "bind_result (Inr x) f = f x"
  by (simp add: bind_result_def)

lemma bind_result_eq_Inr:
  "bind_result m f = Inr y \<longleftrightarrow> (\<exists>x. m = Inr x \<and> f x = Inr y)"
  by (cases m) (simp_all add: bind_result_def)

lemma select_tensor_quant_config_None:
  "select_tensor_quant_config op_info c = None
   \<Longrightarrow> activation_tensor_config (op_quant_config op_info) = None"
  by (simp add: select_tensor_quant_config_def split: if_splits)

lemma select_tensor_quant_config_activation:
  "select_tensor_quant_config op_info False = activation_tensor_config (op_quant_config op_info)"
  by (simp add: select_tensor_quant_config_def)

text \<open>What a returning call of the wrapper has computed.\<close>

lemma wrapper_Inr:
  assumes "get_tensor_transformation_params_wrapper env t inb op_info g qsv qp = Inr r"
  shows "\<exists>td p. get_tensor_data env t (buffers g) = Inr td
    \<and> r = get_tensor_transformation_params (name t) op_info inb p (td \<noteq> None)
    \<and> (qp \<noteq> None \<longrightarrow> p = qp)
    \<and> (p = None \<longrightarrow> qp = None \<and> select_tensor_quant_config op_info (td \<noteq> None) = None)"
proof -
  obtain td where td: "get_tensor_data env t (buffers g) = Inr td"
    using assms
    by (cases "get_tensor_data env t (buffers g)")
      (simp_all add: get_tensor_transformation_params_wrapper_def bind_result_Inl Let_def)
  show ?thesis
  proof (cases qp)
    case (Some q)
    then show ?thesis
      using assms td
      by (simp add: get_tensor_transformation_params_wrapper_def bind_result_Inr
          get_tensor_name_def Let_def)
  next
    case None
    show ?thesis
    proof (cases "select_tensor_quant_config op_info (td \<noteq> None)")
      case cfgNone: None
      then show ?thesis
        using assms td None
        by (auto simp add: get_tensor_transformation_params_wrapper_def bind_result_Inr
            get_tensor_name_def Let_def)
    next
      case (Some cfg)
      then show ?thesis
        using assms td None
        by (auto simp add: get_tensor_transformation_params_wrapper_def bind_result_Inr
            bind_result_eq_Inr get_tensor_name_def Let_def)
    qed
  qed
qed

lemma wrapper_Inr_shape:
  assumes "get_tensor_transformation_params_wrapper env t inb op_info g qsv qp = Inr r"
  shows "\<exists>is_constant p.
      r = get_tensor_transformation_params (name t) op_info inb p is_constant
    \<and> (p = None \<longrightarrow> select_tensor_quant_config op_info is_constant = None)"
  using wrapper_Inr [OF assms] by blast

lemma wrapper_supplied:
  assumes "get_tensor_data env t (buffers g) = Inr td"
    and "qp = None \<longrightarrow> select_tensor_quant_config op_info (td \<noteq> None) = None"
  shows "get_tensor_transformation_params_wrapper env t inb op_info g qsv qp
         = Inr (get_tensor_transformation_params (name t) op_info inb qp (td \<noteq> None))"
  using assms
  by (cases qp)
    (auto simp add: get_tensor_transformation_params_wrapper_def bind_result_Inr
      get_tensor_name_def Let_def)

text \<open>The entry of an outbound tensor in a returning call of the wrapper: supplied
  parameters are handed on; without supplied parameters the entry has none exactly when
  no tensor config is selected.\<close>

lemma wrapper_outbound_entry:
  assumes "get_tensor_transformation_params_wrapper env t False op_info g qsv qp = Inr r"
  shows "\<exists>pr td. get_tensor_data env t (buffers g) = Inr td
    \<and> tensor_name r = name t \<and> producer r = Some pr
    \<and> (qp \<noteq> None \<longrightarrow> parameters pr = qp)
    \<and> (qp = None
       \<longrightarrow> (parameters pr = None)
           = (select_tensor_quant_config op_info (td \<noteq> None) = None))"
proof -
  obtain td p where data: "get_tensor_data env t (buffers g) = Inr td"
    and r: "r = get_tensor_transformation_params (name t) op_info False p (td \<noteq> None)"
    and supplied: "qp \<noteq> None \<longrightarrow> p = qp"
    and none: "p = None
      \<longrightarrow> qp = None \<and> select_tensor_quant_config op_info (td \<noteq> None) = None"
    using wrapper_Inr [OF assms] by blast
  let ?pr = "\<lparr>subgraph_op_id = subgraph_op_index op_info,
      transformations = get_tensor_transformations (op_quant_config op_info) False
        (td \<noteq> None),
      parameters = p\<rparr>"
  have entry: "tensor_name r = name t" "producer r = Some ?pr"
    by (simp_all add: r get_tensor_transformation_params_def)
  have "p = None"
    if "qp = None" and "select_tensor_quant_config op_info (td \<noteq> None) = None"
  proof -
    have "get_tensor_transformation_params_wrapper env t False op_info g qsv qp
        = Inr (get_tensor_transformation_params (name t) op_info False qp (td \<noteq> None))"
      using data that by (intro wrapper_supplied) simp_all
    then have "get_tensor_transformation_params (name t) op_info False p (td \<noteq> None)
        = get_tensor_transformation_params (name t) op_info False None (td \<noteq> None)"
      using assms r that(1) by simp
    then show ?thesis
      by (simp add: get_tensor_transformation_params_def)
  qed
  then have "qp = None
      \<longrightarrow> (parameters ?pr = None)
          = (select_tensor_quant_config op_info (td \<noteq> None) = None)"
    using none by auto
  then show ?thesis
    using data entry supplied by auto
qed

text \<open>
  Claim C8, as the code has it. When a tensor is materialized without parameters supplied
  by the caller, it has a non-null tensor quantization config and its name is absent from
  the calibration-statistics map: an activation (no embedded data) makes the call raise a
  ValueError that names the tensor; for a constant that error is not raised, its min/max
  are computed on the spot from the embedded data and the parameters are computed from
  them. The min/max are reduced over every axis except the quantized dimension when the
  weight config is per-channel and the operator has a quantized dimension, which for
  batch matmul is the last axis or, with a transposed right operand, the one before; they
  are reduced over all axes otherwise. When the caller supplies parameters (the
  propagation of SAME_AS_INPUT_SCALE does), no statistics are read and no error is raised.
\<close>

theorem wrapper_missing_statistics:
  assumes "qsv (name tensor) = None"
    and "get_tensor_data env tensor (buffers g) = Inr td"
    and "select_tensor_quant_config op_info (td \<noteq> None) = Some cfg"
  shows "(td = None
       \<longrightarrow> get_tensor_transformation_params_wrapper env tensor inb op_info g qsv None
           = Inl (missing_statistics (name tensor)))
    \<and> (td = Some d
       \<longrightarrow> get_tensor_transformation_params_wrapper env tensor inb op_info g qsv None
           = bind_result (init_tensor_min_max env tensor g op_info 0 6) (\<lambda>tensor_min_max.
             bind_result (get_tensor_quant_params env op_info tensor_min_max cfg (Some d))
               (\<lambda>quant_params.
             Inr (get_tensor_transformation_params (name tensor) op_info inb
                    (Some quant_params) True))))
    \<and> (td = Some d \<and> channel_wise (weight_tensor_config (op_quant_config op_info))
        \<and> op_name op_info \<noteq> BATCH_MATMUL
        \<and> TFL_OP_TO_WEIGHT_QUANTIZED_DIM (op_name op_info) = Some q
       \<longrightarrow> init_tensor_min_max env tensor g op_info 0 6
           = bind_result
               (np_min env d
                  (Some (filter (\<lambda>axis. axis \<noteq> q) (map int [0..<length (shape tensor)]))))
               (\<lambda>mn.
             bind_result
               (np_max env d
                  (Some (filter (\<lambda>axis. axis \<noteq> q) (map int [0..<length (shape tensor)]))))
               (\<lambda>mx. Inr [''min'' \<mapsto> mn, ''max'' \<mapsto> mx])))
    \<and> (td = Some d \<and> channel_wise (weight_tensor_config (op_quant_config op_info))
        \<and> op_name op_info = BATCH_MATMUL \<and> builtinOptions_adjY (op op_info) = Some adj
        \<and> q = int (ndim env d) - (if adj then 2 else 1)
       \<longrightarrow> init_tensor_min_max env tensor g op_info 0 6
           = bind_result
               (np_min env d
                  (Some (filter (\<lambda>axis. axis \<noteq> q) (map int [0..<length (shape tensor)]))))
               (\<lambda>mn.
             bind_result
               (np_max env d
                  (Some (filter (\<lambda>axis. axis \<noteq> q) (map int [0..<length (shape tensor)]))))
               (\<lambda>mx. Inr [''min'' \<mapsto> mn, ''max'' \<mapsto> mx])))
    \<and> (td = Some d
        \<and> (\<not> channel_wise (weight_tensor_config (op_quant_config op_info))
           \<or> op_name op_info \<noteq> BATCH_MATMUL
             \<and> TFL_OP_TO_WEIGHT_QUANTIZED_DIM (op_name op_info) = None)
       \<longrightarrow> init_tensor_min_max env tensor g op_info 0 6
           = bind_result (np_min env d None) (\<lambda>mn.
             bind_result (np_max env d None) (\<lambda>mx. Inr [''min'' \<mapsto> mn, ''max'' \<mapsto> mx])))
    \<and> get_tensor_transformation_params_wrapper env tensor inb op_info g qsv (Some p)
        = Inr (get_tensor_transformation_params (name tensor) op_info inb (Some p)
                 (td \<noteq> None))"
proof -
  have supplied: "get_tensor_transformation_params_wrapper env tensor inb op_info g qsv
      (Some p)
      = Inr (get_tensor_transformation_params (name tensor) op_info inb (Some p)
               (td \<noteq> None))"
    using assms(2) by (intro wrapper_supplied) simp_all
  have activation: "get_tensor_transformation_params_wrapper env tensor inb op_info g qsv
      None = Inl (missing_statistics (name tensor))" if "td = None"
    using assms that
    by (simp add: get_tensor_transformation_params_wrapper_def bind_result_Inr
        bind_result_Inl get_tensor_name_def Let_def)
  have const_case: "get_tensor_transformation_params_wrapper env tensor inb op_info g qsv
      None
      = bind_result (init_tensor_min_max env tensor g op_info 0 6) (\<lambda>tensor_min_max.
        bind_result (get_tensor_quant_params env op_info tensor_min_max cfg (Some d))
          (\<lambda>quant_params.
        Inr (get_tensor_transformation_params (name tensor) op_info inb
               (Some quant_params) True)))" if "td = Some d"
  proof (cases "init_tensor_min_max env tensor g op_info 0 6")
    case (Inl e)
    then show ?thesis
      using assms that
      by (simp add: get_tensor_transformation_params_wrapper_def bind_result_Inr
          bind_result_Inl get_tensor_name_def Let_def)
  next
    case (Inr mm)
    then show ?thesis
      using assms that
      by (cases "get_tensor_quant_params env op_info mm cfg (Some d)")
        (simp_all add: get_tensor_transformation_params_wrapper_def bind_result_Inr
          bind_result_Inl get_tensor_name_def Let_def)
  qed
  have init: "init_tensor_min_max env tensor g op_info 0 6
      = bind_result
          (if channel_wise (weight_tensor_config (op_quant_config op_info)) then
             (if op_name op_info = BATCH_MATMUL
              then bind_result
                     (get_bmm_weight_quantized_dim env (Some d)
                        (builtinOptions_adjY (op op_info)))
                     (\<lambda>q. Inr (Some q))
              else Inr (TFL_OP_TO_WEIGHT_QUANTIZED_DIM (op_name op_info)))
           else Inr None) (\<lambda>quantized_dim.
        bind_result (np_min env d (get_reduce_dims quantized_dim (shape tensor))) (\<lambda>mn.
        bind_result (np_max env d (get_reduce_dims quantized_dim (shape tensor))) (\<lambda>mx.
          Inr [''min'' \<mapsto> mn, ''max'' \<mapsto> mx])))" if "td = Some d"
    using assms(2) that by (simp add: init_tensor_min_max_def bind_result_Inr Let_def)
  have table: "init_tensor_min_max env tensor g op_info 0 6
      = bind_result
          (np_min env d
             (Some (filter (\<lambda>axis. axis \<noteq> q) (map int [0..<length (shape tensor)]))))
          (\<lambda>mn.
        bind_result
          (np_max env d
             (Some (filter (\<lambda>axis. axis \<noteq> q) (map int [0..<length (shape tensor)]))))
          (\<lambda>mx. Inr [''min'' \<mapsto> mn, ''max'' \<mapsto> mx]))"
    if "td = Some d" "channel_wise (weight_tensor_config (op_quant_config op_info))"
      "op_name op_info \<noteq> BATCH_MATMUL"
      "TFL_OP_TO_WEIGHT_QUANTIZED_DIM (op_name op_info) = Some q"
    using that by (simp add: init bind_result_Inr get_reduce_dims_def)
  have bmm: "init_tensor_min_max env tensor g op_info 0 6
      = bind_result
          (np_min env d
             (Some (filter (\<lambda>axis. axis \<noteq> q) (map int [0..<length (shape tensor)]))))
          (\<lambda>mn.
        bind_result
          (np_max env d
             (Some (filter (\<lambda>axis. axis \<noteq> q) (map int [0..<length (shape tensor)]))))
          (\<lambda>mx. Inr [''min'' \<mapsto> mn, ''max'' \<mapsto> mx]))"
    if "td = Some d" "channel_wise (weight_tensor_config (op_quant_config op_info))"
      "op_name op_info = BATCH_MATMUL" "builtinOptions_adjY (op op_info) = Some adj"
      "q = int (ndim env d) - (if adj then 2 else 1)"
    using that
    by (simp add: init bind_result_Inr get_reduce_dims_def get_bmm_weight_quantized_dim_def
        Let_def)
  have whole: "init_tensor_min_max env tensor g op_info 0 6
      = bind_result (np_min env d None) (\<lambda>mn.
        bind_result (np_max env d None) (\<lambda>mx. Inr [''min'' \<mapsto> mn, ''max'' \<mapsto> mx]))"
    if "td = Some d"
      "\<not> channel_wise (weight_tensor_config (op_quant_config op_info))
       \<or> op_name op_info \<noteq> BATCH_MATMUL
         \<and> TFL_OP_TO_WEIGHT_QUANTIZED_DIM (op_name op_info) = None"
    using that by (auto simp add: init bind_result_Inr get_reduce_dims_def)
  show ?thesis
    using supplied activation const_case table bmm whole by blast
qed

theorem wrapper_missing_statistics_witness:
  "get_tensor_transformation_params_wrapper example_numpy_env
     (subgraph_tensors example_graph_info ! 0) True (example_fc_op_info SRQ)
     example_graph_info (map_of []) None = Inl (missing_statistics ''input'')
   \<and> init_tensor_min_max example_numpy_env (subgraph_tensors example_graph_info ! 1)
       example_graph_info (example_fc_op_info DRQ) 0 6
     = Inr [''min'' \<mapsto> [- 20], ''max'' \<mapsto> [40]]"
proof -
  let ?input = "subgraph_tensors example_graph_info ! 0"
  let ?weight = "subgraph_tensors example_graph_info ! 1"
  let ?act = "\<lparr>TensorQuantizationConfig.num_bits = 8, symmetric = False,
      channel_wise = False, dtype = INT_DTYPE\<rparr>"
  let ?wcfg = "\<lparr>TensorQuantizationConfig.num_bits = 8, symmetric = True,
      channel_wise = True, dtype = INT_DTYPE\<rparr>"
  have a1: "(map_of [] :: int list qsv_map) (name ?input) = None" by simp
  have a2: "get_tensor_data example_numpy_env ?input (buffers example_graph_info) = Inr None"
    by (simp add: get_tensor_data_def example_graph_info_def)
  have a3: "select_tensor_quant_config (example_fc_op_info SRQ) (None \<noteq> (None :: int list option))
      = Some ?act"
    by (simp add: select_tensor_quant_config_def example_fc_op_info_def
        example_op_quant_config_def)
  have w1: "(map_of [] :: int list qsv_map) (name ?weight) = None" by simp
  have w2: "get_tensor_data example_numpy_env ?weight (buffers example_graph_info)
      = Inr (Some [10, - 20, 30, 40])"
    by (simp add: get_tensor_data_def example_graph_info_def example_numpy_env_def
        bind_result_Inr)
  have w3: "select_tensor_quant_config (example_fc_op_info DRQ)
      (Some [10, - 20, 30, 40] \<noteq> (None :: int list option)) = Some ?wcfg"
    by (simp add: select_tensor_quant_config_def example_fc_op_info_def
        example_op_quant_config_def SUPPORTED_WEIGHT_ONLY_OPS_def)
  have first: "get_tensor_transformation_params_wrapper example_numpy_env ?input True
      (example_fc_op_info SRQ) example_graph_info (map_of []) None
      = Inl (missing_statistics ''input'')"
    using wrapper_missing_statistics
      [where qsv = "map_of []" and tensor = ?input and env = example_numpy_env
         and g = example_graph_info and td = None and op_info = "example_fc_op_info SRQ"
         and cfg = ?act and inb = True, OF a1 a2 a3]
    by (simp add: example_graph_info_def)
  have second: "init_tensor_min_max example_numpy_env ?weight example_graph_info
      (example_fc_op_info DRQ) 0 6 = Inr [''min'' \<mapsto> [- 20], ''max'' \<mapsto> [40]]"
    using wrapper_missing_statistics
      [where qsv = "map_of []" and tensor = ?weight and env = example_numpy_env
         and g = example_graph_info and td = "Some [10, - 20, 30, 40]"
         and op_info = "example_fc_op_info DRQ" and cfg = ?wcfg
         and d = "[10, - 20, 30, 40]" and q = 0, OF w1 w2 w3]
    by (simp add: example_fc_op_info_def example_op_quant_config_def
        TFL_OP_TO_WEIGHT_QUANTIZED_DIM_def example_numpy_env_def bind_result_Inr)
  show ?thesis using first second by simp
qed

text \<open>
  The claim as it was stated fails where the caller supplies the parameters: the output
  of the reshape is an activation, its selected config is not null, its name is in no
  statistics map, and the call returns its edit with the supplied parameters.
\<close>

theorem wrapper_missing_statistics_counterexample:
  "get_tensor_data example_numpy_env (subgraph_tensors example_graph_info ! 3)
     (buffers example_graph_info) = Inr None
   \<and> select_tensor_quant_config example_reshape_op_info False
     = Some \<lparr>TensorQuantizationConfig.num_bits = 8, symmetric = False, channel_wise = False,
             dtype = INT_DTYPE\<rparr>
   \<and> map_of ([] :: (string \<times> int list qsv) list)
       (name (subgraph_tensors example_graph_info ! 3)) = None
   \<and> get_tensor_transformation_params_wrapper example_numpy_env
       (subgraph_tensors example_graph_info ! 3) False example_reshape_op_info
       example_graph_info (map_of [])
       (Some \<lparr>scale = [8], zero_point = [0], num_bits = 8, symmetric = False,
              quantized_dimension = None, quantized_data = None\<rparr>)
     = Inr \<lparr>tensor_name = ''output'',
            producer =
              Some \<lparr>subgraph_op_id = 1, transformations = [ADD_DEQUANTIZE],
                    parameters =
                      Some \<lparr>scale = [8], zero_point = [0], num_bits = 8, symmetric = False,
                            quantized_dimension = None, quantized_data = None\<rparr>\<rparr>,
            consumers = None\<rparr>"
  by (simp add: get_tensor_transformation_params_wrapper_def get_tensor_data_def
      select_tensor_quant_config_def example_graph_info_def example_reshape_op_info_def
      example_op_quant_config_def example_numpy_env_def bind_result_Inr get_tensor_name_def
      get_tensor_transformation_params_def get_tensor_transformations_def
      SUPPORTED_WEIGHT_ONLY_OPS_def SUPPORTED_DRQ_OPS_def Let_def)

subsection \<open>Operators whose outputs share the scale of the input\<close>

lemma materialize_op_tensors_supplied:
  assumes "\<forall>t \<in> set ts. get_tensor_data env t (buffers g) = Inr (td t)"
    and "qp = None
         \<longrightarrow> (\<forall>t \<in> set ts. select_tensor_quant_config op_info (td t \<noteq> None) = None)"
  shows "materialize_op_tensors env acc ts inb op_info g qsv qp
         = Inr (acc @ map (\<lambda>t. get_tensor_transformation_params (name t) op_info inb qp
                                 (td t \<noteq> None)) ts)"
  using assms
proof (induction ts arbitrary: acc)
  case Nil
  show ?case by simp
next
  case (Cons t ts)
  have data: "get_tensor_data env t (buffers g) = Inr (td t)"
    using Cons.prems(1) by simp
  have sel: "qp = None \<longrightarrow> select_tensor_quant_config op_info (td t \<noteq> None) = None"
    using Cons.prems(2) by simp
  have "get_tensor_transformation_params_wrapper env t inb op_info g qsv qp
        = Inr (get_tensor_transformation_params (name t) op_info inb qp (td t \<noteq> None))"
    using wrapper_supplied [OF data sel] by simp
  moreover have "materialize_op_tensors env
      (acc @ [get_tensor_transformation_params (name t) op_info inb qp (td t \<noteq> None)])
      ts inb op_info g qsv qp
    = Inr ((acc @ [get_tensor_transformation_params (name t) op_info inb qp (td t \<noteq> None)])
           @ map (\<lambda>t. get_tensor_transformation_params (name t) op_info inb qp
                        (td t \<noteq> None)) ts)"
    using Cons.prems by (intro Cons.IH) simp_all
  ultimately show ?case
    by (simp add: bind_result_Inr)
qed

lemma materialize_op_tensors_each:
  "materialize_op_tensors env acc ts inb op_info g qsv qp = Inr r
   \<Longrightarrow> \<exists>new. r = acc @ new
         \<and> list_all2 (\<lambda>t e. get_tensor_transformation_params_wrapper env t inb op_info g
                               qsv qp = Inr e) ts new"
proof (induction ts arbitrary: acc)
  case Nil
  then show ?case by simp
next
  case (Cons t ts)
  obtain e where e: "get_tensor_transformation_params_wrapper env t inb op_info g qsv qp
      = Inr e"
    and rest: "materialize_op_tensors env (acc @ [e]) ts inb op_info g qsv qp = Inr r"
    using Cons.prems by (auto simp add: bind_result_eq_Inr)
  obtain new where new: "r = (acc @ [e]) @ new"
    and rel: "list_all2 (\<lambda>t e. get_tensor_transformation_params_wrapper env t inb op_info g
                               qsv qp = Inr e) ts new"
    using Cons.IH [OF rest] by blast
  have "r = acc @ (e # new)" using new by simp
  moreover have "list_all2 (\<lambda>t e. get_tensor_transformation_params_wrapper env t inb
      op_info g qsv qp = Inr e) (t # ts) (e # new)"
    using rel e by simp
  ultimately show ?case by blast
qed

lemma fold_qsv_update:
  "fold (\<lambda>output_tensor m. m(get_tensor_name output_tensor \<mapsto> s)) outs qsv n
   = (if n \<in> name ` set outs then Some s else qsv n)"
  by (induction outs arbitrary: qsv) (auto simp add: get_tensor_name_def)

lemma first_consumer_inbound:
  "first_consumer (get_tensor_transformation_params tname op_info True p c)
   = Inr \<lparr>subgraph_op_id = subgraph_op_index op_info,
          transformations = get_tensor_transformations (op_quant_config op_info) True c,
          parameters = p\<rparr>"
  by (simp add: first_consumer_def get_tensor_transformation_params_def)

lemma wrapper_inbound_first_consumer:
  assumes "get_tensor_transformation_params_wrapper env t True op_info g qsv qp = Inr ip"
  shows "tensor_name ip = name t \<and> (\<exists>c. first_consumer ip = Inr c)"
proof -
  obtain is_constant p
    where ip: "ip = get_tensor_transformation_params (name t) op_info True p is_constant"
    using wrapper_Inr_shape [OF assms] by blast
  have "tensor_name ip = name t"
    by (simp add: ip get_tensor_transformation_params_def)
  moreover have "\<exists>c. first_consumer ip = Inr c"
    unfolding ip first_consumer_inbound by blast
  ultimately show ?thesis by blast
qed

lemma same_as_input_single:
  assumes "get_tensor_transformation_params_wrapper env t True op_info g qsv None = Inr ip"
    and "first_consumer ip = Inr c"
    and "qsv (name t) = Some s"
    and "\<forall>out \<in> set outs. get_tensor_data env out (buffers g) = Inr (td out)"
    and "parameters c = None
         \<longrightarrow> (\<forall>out \<in> set outs. select_tensor_quant_config op_info (td out \<noteq> None) = None)"
  shows "materialize_standard_op_with_same_as_input_scale env [t] outs op_info g qsv
      = Inr (ip # map (\<lambda>out. get_tensor_transformation_params (name out) op_info False
                               (parameters c) (td out \<noteq> None)) outs,
             fold (\<lambda>output_tensor m. m(get_tensor_name output_tensor \<mapsto> s)) outs qsv)"
proof -
  have tname: "tensor_name ip = name t"
    using wrapper_inbound_first_consumer [OF assms(1)] by blast
  have outs: "materialize_op_tensors env [ip] outs False op_info g qsv (parameters c)
      = Inr ([ip] @ map (\<lambda>out. get_tensor_transformation_params (name out) op_info False
                                 (parameters c) (td out \<noteq> None)) outs)"
    using assms(4,5) by (rule materialize_op_tensors_supplied)
  show ?thesis
    using assms(1,2,3) outs tname
    by (simp add: materialize_standard_op_with_same_as_input_scale_def
        get_single_tensor_params_def bind_result_Inr)
qed

lemma same_as_input_each:
  assumes "get_tensor_transformation_params_wrapper env t True op_info g qsv None = Inr ip"
    and "first_consumer ip = Inr c"
    and "materialize_standard_op_with_same_as_input_scale env [t] outs op_info g qsv
         = Inr (ps, qsv')"
  shows "(\<exists>es. ps = ip # es
      \<and> list_all2 (\<lambda>out entry. \<exists>pr td.
            get_tensor_data env out (buffers g) = Inr td
            \<and> tensor_name entry = name out \<and> producer entry = Some pr
            \<and> (parameters c \<noteq> None \<longrightarrow> parameters pr = parameters c)
            \<and> (parameters c = None
               \<longrightarrow> (parameters pr = None)
                   = (select_tensor_quant_config op_info (td \<noteq> None) = None)))
          outs es)
    \<and> (\<exists>s. qsv (name t) = Some s
          \<and> (\<forall>n. qsv' n = (if n \<in> name ` set outs then Some s else qsv n)))"
proof -
  have tname: "tensor_name ip = name t"
    using wrapper_inbound_first_consumer [OF assms(1)] by blast
  obtain r where r: "materialize_op_tensors env [ip] outs False op_info g qsv (parameters c)
      = Inr r"
    and fin: "(case qsv (name t) of
         None \<Rightarrow> Inl KeyError
       | Some input_tensor_qsv \<Rightarrow>
           Inr (r, fold (\<lambda>output_tensor m. m(get_tensor_name output_tensor
                           \<mapsto> input_tensor_qsv)) outs qsv)) = Inr (ps, qsv')"
    using assms tname
    by (auto simp add: materialize_standard_op_with_same_as_input_scale_def
        get_single_tensor_params_def bind_result_Inr bind_result_eq_Inr)
  obtain s where s: "qsv (name t) = Some s" and ps: "ps = r"
    and qsv': "qsv' = fold (\<lambda>output_tensor m. m(get_tensor_name output_tensor \<mapsto> s))
        outs qsv"
    using fin by (cases "qsv (name t)") auto
  obtain es where es: "r = [ip] @ es"
    and each: "list_all2 (\<lambda>out e. get_tensor_transformation_params_wrapper env out False
        op_info g qsv (parameters c) = Inr e) outs es"
    using materialize_op_tensors_each [OF r] by blast
  have "list_all2 (\<lambda>out entry. \<exists>pr td.
            get_tensor_data env out (buffers g) = Inr td
            \<and> tensor_name entry = name out \<and> producer entry = Some pr
            \<and> (parameters c \<noteq> None \<longrightarrow> parameters pr = parameters c)
            \<and> (parameters c = None
               \<longrightarrow> (parameters pr = None)
                   = (select_tensor_quant_config op_info (td \<noteq> None) = None)))
          outs es"
    using each
  proof (rule list_all2_mono)
    fix out entry
    assume "get_tensor_transformation_params_wrapper env out False op_info g qsv
        (parameters c) = Inr entry"
    then show "\<exists>pr td. get_tensor_data env out (buffers g) = Inr td
        \<and> tensor_name entry = name out \<and> producer entry = Some pr
        \<and> (parameters c \<noteq> None \<longrightarrow> parameters pr = parameters c)
        \<and> (parameters c = None
           \<longrightarrow> (parameters pr = None)
               = (select_tensor_quant_config op_info (td \<noteq> None) = None))"
      by (rule wrapper_outbound_entry)
  qed
  moreover have "\<forall>n. qsv' n = (if n \<in> name ` set outs then Some s else qsv n)"
    by (simp add: qsv' fold_qsv_update)
  ultimately show ?thesis
    using ps es s by auto
qed

text \<open>
  Claim C4, as the code has it. For an operator materialized under SAME_AS_INPUT_SCALE: if
  the number of non-ignored, present input tensors is not exactly one, a ValueError is
  raised; with exactly one such input, an error of materializing it (an activation without
  statistics, for one) is the outcome. When the input is materialized, its statistics
  entry is present and the data of every output tensor can be read, and moreover the
  parameters of the input are not null or no tensor config is selected for any output
  tensor, the call returns: every output tensor gets the parameters of the input tensor,
  and the statistics entry of every output tensor is overwritten with the entry of the
  input tensor, the other entries staying. In every returning call the statistics are
  overwritten in that way; parameters of the input that are not null are the parameters
  of every output tensor; and with null parameters of the input, an output tensor has
  null parameters exactly when no tensor config is selected for it, and parameters of
  its own otherwise.
\<close>

theorem materialize_same_as_input_scale:
  assumes "collect_op_tensors 0 (inputs (op op_info))
             (case ii of None \<Rightarrow> [] | Some l \<Rightarrow> l) (subgraph_tensors g) [] = Inr ins"
    and "collect_op_tensors 0 (outputs (op op_info))
             (case oi of None \<Rightarrow> [] | Some l \<Rightarrow> l) (subgraph_tensors g) [] = Inr outs"
  shows "(length ins \<noteq> 1
       \<longrightarrow> materialize_standard_op env op_info g qsv SAME_AS_INPUT_SCALE ii oi
           = Inl (ValueError
               (''Trying to get a single tensor params with a list of multiple tensor''
                @ '' with size '' @ str_nat (length ins) @ ''.'')))
    \<and> (ins = [t]
        \<and> get_tensor_transformation_params_wrapper env t True op_info g qsv None = Inl e
       \<longrightarrow> materialize_standard_op env op_info g qsv SAME_AS_INPUT_SCALE ii oi = Inl e)
    \<and> (ins = [t]
        \<and> get_tensor_transformation_params_wrapper env t True op_info g qsv None = Inr ip
       \<longrightarrow> (\<exists>c. first_consumer ip = Inr c))
    \<and> (ins = [t]
        \<and> get_tensor_transformation_params_wrapper env t True op_info g qsv None = Inr ip
        \<and> first_consumer ip = Inr c
        \<and> qsv (name t) = Some s
        \<and> (\<forall>out \<in> set outs. get_tensor_data env out (buffers g) = Inr (td out))
        \<and> (parameters c = None
           \<longrightarrow> (\<forall>out \<in> set outs.
                 select_tensor_quant_config op_info (td out \<noteq> None) = None))
       \<longrightarrow> (\<exists>qsv'. materialize_standard_op env op_info g qsv SAME_AS_INPUT_SCALE ii oi
               = Inr (ip # map (\<lambda>out.
                     \<lparr>tensor_name = name out,
                      producer =
                        Some \<lparr>subgraph_op_id = subgraph_op_index op_info,
                              transformations =
                                get_tensor_transformations (op_quant_config op_info)
                                  False (td out \<noteq> None),
                              parameters = parameters c\<rparr>,
                      consumers = None\<rparr>) outs, qsv')
             \<and> (\<forall>n. qsv' n = (if n \<in> name ` set outs then Some s else qsv n))))
    \<and> (ins = [t]
        \<and> get_tensor_transformation_params_wrapper env t True op_info g qsv None = Inr ip
        \<and> first_consumer ip = Inr c
        \<and> materialize_standard_op env op_info g qsv SAME_AS_INPUT_SCALE ii oi
          = Inr (ps, new_qsv)
       \<longrightarrow> (\<exists>es. ps = ip # es
             \<and> list_all2 (\<lambda>out entry. \<exists>pr data_of_out.
                   get_tensor_data env out (buffers g) = Inr data_of_out
                   \<and> tensor_name entry = name out \<and> producer entry = Some pr
                   \<and> (parameters c \<noteq> None \<longrightarrow> parameters pr = parameters c)
                   \<and> (parameters c = None
                      \<longrightarrow> (parameters pr = None)
                          = (select_tensor_quant_config op_info (data_of_out \<noteq> None)
                             = None)))
                 outs es)
           \<and> (\<exists>entry_of_input. qsv (name t) = Some entry_of_input
                 \<and> (\<forall>n. new_qsv n
                       = (if n \<in> name ` set outs then Some entry_of_input else qsv n))))"
proof -
  have std: "materialize_standard_op env op_info g qsv SAME_AS_INPUT_SCALE ii oi
      = materialize_standard_op_with_same_as_input_scale env ins outs op_info g qsv"
    using assms by (simp add: materialize_standard_op_def bind_result_Inr)
  have many: "materialize_standard_op_with_same_as_input_scale env ins outs op_info g qsv
      = Inl (ValueError
               (''Trying to get a single tensor params with a list of multiple tensor''
                @ '' with size '' @ str_nat (length ins) @ ''.''))"
    if "length ins \<noteq> 1"
    using that
    by (simp add: materialize_standard_op_with_same_as_input_scale_def
        get_single_tensor_params_def bind_result_Inl)
  have failing: "materialize_standard_op_with_same_as_input_scale env ins outs op_info g qsv
      = Inl e"
    if "ins = [t]"
      "get_tensor_transformation_params_wrapper env t True op_info g qsv None = Inl e"
    using that
    by (simp add: materialize_standard_op_with_same_as_input_scale_def
        get_single_tensor_params_def bind_result_Inl)
  have consumer: "\<exists>c. first_consumer ip = Inr c"
    if "get_tensor_transformation_params_wrapper env t True op_info g qsv None = Inr ip"
    using wrapper_inbound_first_consumer [OF that] by blast
  have single: "\<exists>qsv'. materialize_standard_op_with_same_as_input_scale env ins outs
        op_info g qsv
        = Inr (ip # map (\<lambda>out.
                     \<lparr>tensor_name = name out,
                      producer =
                        Some \<lparr>subgraph_op_id = subgraph_op_index op_info,
                              transformations =
                                get_tensor_transformations (op_quant_config op_info)
                                  False (td out \<noteq> None),
                              parameters = parameters c\<rparr>,
                      consumers = None\<rparr>) outs, qsv')
      \<and> (\<forall>n. qsv' n = (if n \<in> name ` set outs then Some s else qsv n))"
    if ins: "ins = [t]"
      and w: "get_tensor_transformation_params_wrapper env t True op_info g qsv None = Inr ip"
      and c: "first_consumer ip = Inr c"
      and s: "qsv (name t) = Some s"
      and data: "\<forall>out \<in> set outs. get_tensor_data env out (buffers g) = Inr (td out)"
      and sel: "parameters c = None
           \<longrightarrow> (\<forall>out \<in> set outs.
                 select_tensor_quant_config op_info (td out \<noteq> None) = None)"
  proof -
    have "materialize_standard_op_with_same_as_input_scale env [t] outs op_info g qsv
        = Inr (ip # map (\<lambda>out. get_tensor_transformation_params (name out) op_info False
                                 (parameters c) (td out \<noteq> None)) outs,
               fold (\<lambda>output_tensor m. m(get_tensor_name output_tensor \<mapsto> s)) outs qsv)"
      using w c s data sel by (rule same_as_input_single)
    then show ?thesis
      using ins by (simp add: get_tensor_transformation_params_def fold_qsv_update)
  qed
  have each: "(\<exists>es. ps = ip # es
             \<and> list_all2 (\<lambda>out entry. \<exists>pr data_of_out.
                   get_tensor_data env out (buffers g) = Inr data_of_out
                   \<and> tensor_name entry = name out \<and> producer entry = Some pr
                   \<and> (parameters c \<noteq> None \<longrightarrow> parameters pr = parameters c)
                   \<and> (parameters c = None
                      \<longrightarrow> (parameters pr = None)
                          = (select_tensor_quant_config op_info (data_of_out \<noteq> None)
                             = None)))
                 outs es)
           \<and> (\<exists>entry_of_input. qsv (name t) = Some entry_of_input
                 \<and> (\<forall>n. new_qsv n
                       = (if n \<in> name ` set outs then Some entry_of_input else qsv n)))"
    if "ins = [t]"
      and "get_tensor_transformation_params_wrapper env t True op_info g qsv None = Inr ip"
      and "first_consumer ip = Inr c"
      and "materialize_standard_op_with_same_as_input_scale env ins outs op_info g qsv
          = Inr (ps, new_qsv)"
    using same_as_input_each [OF that(2,3), of outs ps new_qsv] that(1,4) by blast
  show ?thesis
    unfolding std using many failing consumer single each by blast
qed

theorem materialize_same_as_input_scale_witness:
  "\<exists>qsv'. materialize_standard_op example_numpy_env example_reshape_op_info example_graph_info
       example_qsv SAME_AS_INPUT_SCALE (Some [1]) None
     = Inr ([\<lparr>tensor_name = ''input'', producer = None,
              consumers =
                Some [\<lparr>subgraph_op_id = 1, transformations = [ADD_QUANTIZE],
                       parameters =
                         Some \<lparr>scale = [8], zero_point = [0], num_bits = 8,
                               symmetric = False, quantized_dimension = None,
                               quantized_data = None\<rparr>\<rparr>]\<rparr>,
             \<lparr>tensor_name = ''output'',
              producer =
                Some \<lparr>subgraph_op_id = 1, transformations = [ADD_DEQUANTIZE],
                      parameters =
                        Some \<lparr>scale = [8], zero_point = [0], num_bits = 8,
                              symmetric = False, quantized_dimension = None,
                              quantized_data = None\<rparr>\<rparr>,
              consumers = None\<rparr>], qsv')
     \<and> qsv' ''output'' = example_qsv ''input''
     \<and> qsv' ''input'' = example_qsv ''input''"
proof -
  let ?t = "subgraph_tensors example_graph_info ! 0"
  let ?out = "subgraph_tensors example_graph_info ! 3"
  let ?p = "\<lparr>scale = [8 :: int], zero_point = [0 :: int], num_bits = 8, symmetric = False,
      quantized_dimension = None, quantized_data = None :: int list option\<rparr>"
  let ?ip = "\<lparr>tensor_name = ''input'', producer = None,
      consumers = Some [\<lparr>subgraph_op_id = 1, transformations = [ADD_QUANTIZE],
                         parameters = Some ?p\<rparr>]\<rparr>"
  let ?s = "map_of [(''min'', [- 10 :: int]), (''max'', [8])]"
  have ins: "collect_op_tensors 0 (inputs (op example_reshape_op_info))
      (case Some [1] of None \<Rightarrow> [] | Some l \<Rightarrow> l) (subgraph_tensors example_graph_info) []
      = Inr [?t]"
    by (simp add: example_reshape_op_info_def example_graph_info_def)
  have outs: "collect_op_tensors 0 (outputs (op example_reshape_op_info))
      (case None of None \<Rightarrow> [] | Some l \<Rightarrow> l) (subgraph_tensors example_graph_info) []
      = Inr [?out]"
    by (simp add: example_reshape_op_info_def example_graph_info_def)
  have w: "get_tensor_transformation_params_wrapper example_numpy_env ?t True
      example_reshape_op_info example_graph_info example_qsv None = Inr ?ip"
    by (simp add: get_tensor_transformation_params_wrapper_def get_tensor_data_def
        select_tensor_quant_config_def example_graph_info_def example_reshape_op_info_def
        example_op_quant_config_def example_numpy_env_def example_qsv_def bind_result_Inr
        get_tensor_name_def get_tensor_quant_params_def get_tensor_transformation_params_def
        get_tensor_transformations_def SUPPORTED_WEIGHT_ONLY_OPS_def SUPPORTED_DRQ_OPS_def
        Let_def)
  have s: "example_qsv (name ?t) = Some ?s"
    by (simp add: example_qsv_def example_graph_info_def)
  let ?c = "\<lparr>subgraph_op_id = 1, transformations = [ADD_QUANTIZE], parameters = Some ?p\<rparr>"
  have c: "first_consumer ?ip = Inr ?c"
    by (simp add: first_consumer_def)
  have acts: "\<forall>out \<in> set [?out].
      get_tensor_data example_numpy_env out (buffers example_graph_info)
      = Inr None"
    by (simp add: get_tensor_data_def example_graph_info_def)
  have sel: "parameters ?c = None
      \<longrightarrow> (\<forall>out \<in> set [?out].
            select_tensor_quant_config example_reshape_op_info
              ((None :: int list option) \<noteq> None) = None)"
    by simp
  have "\<exists>qsv'. materialize_standard_op example_numpy_env example_reshape_op_info
          example_graph_info example_qsv SAME_AS_INPUT_SCALE (Some [1]) None
        = Inr (?ip # map (\<lambda>out.
              \<lparr>tensor_name = name out,
               producer =
                 Some \<lparr>subgraph_op_id = subgraph_op_index example_reshape_op_info,
                       transformations =
                         get_tensor_transformations (op_quant_config example_reshape_op_info)
                           False ((None :: int list option) \<noteq> None),
                       parameters = parameters ?c\<rparr>,
               consumers = None\<rparr>) [?out], qsv')
      \<and> (\<forall>n. qsv' n = (if n \<in> name ` set [?out] then Some ?s else example_qsv n))"
    using materialize_same_as_input_scale
      [where env = example_numpy_env and qsv = example_qsv and t = ?t and ip = ?ip
         and s = ?s and c = ?c and td = "\<lambda>out. None" and e = KeyError and ps = "[]"
         and new_qsv = example_qsv, OF ins outs] w c s acts sel
    by blast
  then obtain qsv' where run: "materialize_standard_op example_numpy_env
        example_reshape_op_info example_graph_info example_qsv SAME_AS_INPUT_SCALE (Some [1])
        None
        = Inr (?ip # map (\<lambda>out.
              \<lparr>tensor_name = name out,
               producer =
                 Some \<lparr>subgraph_op_id = subgraph_op_index example_reshape_op_info,
                       transformations =
                         get_tensor_transformations (op_quant_config example_reshape_op_info)
                           False ((None :: int list option) \<noteq> None),
                       parameters = parameters ?c\<rparr>,
               consumers = None\<rparr>) [?out], qsv')"
    and qsv': "\<forall>n. qsv' n = (if n \<in> name ` set [?out] then Some ?s else example_qsv n)"
    by blast
  have "map (\<lambda>out.
              \<lparr>tensor_name = name out,
               producer =
                 Some \<lparr>subgraph_op_id = subgraph_op_index example_reshape_op_info,
                       transformations =
                         get_tensor_transformations (op_quant_config example_reshape_op_info)
                           False ((None :: int list option) \<noteq> None),
                       parameters = parameters ?c\<rparr>,
               consumers = None\<rparr>) [?out] = [\<lparr>tensor_name = ''output'',
      producer = Some \<lparr>subgraph_op_id = 1, transformations = [ADD_DEQUANTIZE],
                       parameters = Some ?p\<rparr>,
      consumers = None\<rparr>]"
    by (simp add: example_graph_info_def example_reshape_op_info_def
        example_op_quant_config_def get_tensor_transformations_def)
  moreover have "qsv' ''output'' = example_qsv ''input''"
    and "qsv' ''input'' = example_qsv ''input''"
    using qsv' by (simp_all add: example_graph_info_def example_qsv_def)
  ultimately show ?thesis
    using run by auto
qed

text \<open>
  The claim as it was stated fails for a single input without statistics: the reshape has
  exactly one non-ignored, present input, the activation \<open>input\<close>; with an empty
  statistics map the call raises the error that names it, and no output gets parameters.
  It also fails where the parameters of the input are null and a tensor config is
  selected for an output: without activation config the input gets no parameters, and the
  output \<open>weight\<close>, a constant of an operator with weight support, gets parameters of its
  own from the weight config.
\<close>

theorem materialize_same_as_input_scale_counterexample:
  "collect_op_tensors 0 (inputs (op example_reshape_op_info)) [1]
     (subgraph_tensors example_graph_info) []
   = Inr [subgraph_tensors example_graph_info ! 0]
   \<and> materialize_standard_op example_numpy_env example_reshape_op_info example_graph_info
       (map_of []) SAME_AS_INPUT_SCALE (Some [1]) None
     = Inl (missing_statistics ''input'')
   \<and> map_sum id fst
       (materialize_standard_op example_numpy_env example_constant_output_op_info
          example_graph_info example_qsv SAME_AS_INPUT_SCALE None None)
     = Inr [\<lparr>tensor_name = ''input'', producer = None,
             consumers =
               Some [\<lparr>subgraph_op_id = 2, transformations = [NO_QUANTIZE],
                      parameters = None\<rparr>]\<rparr>,
            \<lparr>tensor_name = ''weight'',
             producer =
               Some \<lparr>subgraph_op_id = 2, transformations = [NO_QUANTIZE],
                     parameters =
                       Some \<lparr>scale = [40], zero_point = [0], num_bits = 8,
                             symmetric = True, quantized_dimension = Some 0,
                             quantized_data = Some [10, - 20, 30, 40]\<rparr>\<rparr>,
             consumers = None\<rparr>]"
  by (simp add: materialize_standard_op_def
      materialize_standard_op_with_same_as_input_scale_def get_single_tensor_params_def
      get_tensor_transformation_params_wrapper_def get_tensor_data_def
      select_tensor_quant_config_def example_graph_info_def example_reshape_op_info_def
      example_constant_output_op_info_def
      example_op_quant_config_def example_numpy_env_def example_qsv_def
      bind_result_Inr bind_result_Inl first_consumer_def
      get_tensor_name_def get_tensor_quant_params_def get_tensor_transformation_params_def
      get_tensor_transformations_def init_tensor_min_max_def get_reduce_dims_def
      TFL_OP_TO_WEIGHT_QUANTIZED_DIM_def py_get_def py_index_def
      SUPPORTED_WEIGHT_ONLY_OPS_def SUPPORTED_DRQ_OPS_def Let_def)

subsection \<open>The fused bias of fully-connected, convolution and batch-matmul operators\<close>

lemma collect_op_tensors_Inr:
  "collect_op_tensors i xs to_ignore ts acc = Inr r \<Longrightarrow> \<exists>remaining. r = acc @ remaining"
proof (induction xs arbitrary: i acc)
  case Nil
  then show ?case by simp
next
  case (Cons x xs)
  show ?case
  proof (cases "int i \<notin> set to_ignore \<and> x \<ge> 0")
    case True
    then have "collect_op_tensors (Suc i) xs to_ignore ts (acc @ [ts ! nat x]) = Inr r"
      using Cons.prems by (simp split: if_splits)
    then obtain remaining where "r = (acc @ [ts ! nat x]) @ remaining"
      using Cons.IH by blast
    then show ?thesis by simp
  next
    case False
    then have "collect_op_tensors (Suc i) xs to_ignore ts acc = Inr r"
      using Cons.prems by auto
    then show ?thesis using Cons.IH by blast
  qed
qed

lemma collect_op_tensors_first_two:
  assumes "collect_op_tensors 0 (i0 # i1 # rest) [2] ts [] = Inr r"
    and "0 \<le> i0" and "0 \<le> i1"
  shows "\<exists>remaining. r = ts ! nat i0 # ts ! nat i1 # remaining"
proof -
  have "collect_op_tensors (Suc (Suc 0)) rest [2] ts [ts ! nat i0, ts ! nat i1] = Inr r"
    using assms by (simp split: if_splits)
  then obtain remaining where "r = [ts ! nat i0, ts ! nat i1] @ remaining"
    using collect_op_tensors_Inr by blast
  then show ?thesis by simp
qed

lemma materialize_op_tensors_Inr:
  "materialize_op_tensors env acc ts inb op_info g qsv qp = Inr r
   \<Longrightarrow> \<exists>new. r = acc @ new
         \<and> list_all2 (\<lambda>t e. \<exists>p c. e = get_tensor_transformation_params (name t) op_info
                                        inb p c) ts new"
proof (induction ts arbitrary: acc)
  case Nil
  then show ?case by simp
next
  case (Cons t ts)
  obtain e where e: "get_tensor_transformation_params_wrapper env t inb op_info g qsv qp
      = Inr e"
    and rest: "materialize_op_tensors env (acc @ [e]) ts inb op_info g qsv qp = Inr r"
    using Cons.prems by (auto simp add: bind_result_eq_Inr)
  obtain c p where shape: "e = get_tensor_transformation_params (name t) op_info inb p c"
    using wrapper_Inr_shape [OF e] by blast
  obtain new where new: "r = (acc @ [e]) @ new"
    and rel: "list_all2 (\<lambda>t e. \<exists>p c. e = get_tensor_transformation_params (name t) op_info
                                        inb p c) ts new"
    using Cons.IH [OF rest] by blast
  have "r = acc @ (e # new)" using new by simp
  moreover have "list_all2 (\<lambda>t e. \<exists>p c. e = get_tensor_transformation_params (name t)
      op_info inb p c) (t # ts) (e # new)"
    using rel shape by auto
  ultimately show ?case by blast
qed

lemma standard_op_no_constraint_first_two:
  assumes "materialize_standard_op env op_info g qsv NO_CONSTRAIN (Some [2]) None
           = Inr (ps, qsv')"
    and "inputs (op op_info) = i0 # i1 # rest" and "0 \<le> i0" and "0 \<le> i1"
  shows "\<exists>p0 p1 remaining c0 c1. ps = p0 # p1 # remaining
    \<and> tensor_name p0 = name (subgraph_tensors g ! nat i0)
    \<and> tensor_name p1 = name (subgraph_tensors g ! nat i1)
    \<and> first_consumer p0 = Inr c0 \<and> first_consumer p1 = Inr c1"
proof -
  obtain ins outs r1 where ins: "collect_op_tensors 0 (inputs (op op_info)) [2]
      (subgraph_tensors g) [] = Inr ins"
    and r1: "materialize_op_tensors env [] ins True op_info g qsv None = Inr r1"
    and r2: "materialize_op_tensors env r1 outs False op_info g qsv None = Inr ps"
    using assms(1)
    by (auto simp add: materialize_standard_op_def materialize_standard_op_no_constraint_def
        bind_result_eq_Inr)
  obtain remaining where remaining: "ins = subgraph_tensors g ! nat i0 # subgraph_tensors g ! nat i1
      # remaining"
    using collect_op_tensors_first_two [of i0 i1 rest "subgraph_tensors g" ins] ins assms(2-4)
    by auto
  obtain new1 where new1: "r1 = new1"
    and rel: "list_all2 (\<lambda>t e. \<exists>p c. e = get_tensor_transformation_params (name t) op_info
                                        True p c) ins new1"
    using materialize_op_tensors_Inr [OF r1] by auto
  obtain e0 e1 es where es: "new1 = e0 # e1 # es"
    and e0: "\<exists>p c. e0 = get_tensor_transformation_params
        (name (subgraph_tensors g ! nat i0)) op_info True p c"
    and e1: "\<exists>p c. e1 = get_tensor_transformation_params
        (name (subgraph_tensors g ! nat i1)) op_info True p c"
  proof -
    from rel obtain e0 e1 es where "new1 = e0 # e1 # es"
      and "\<exists>p c. e0 = get_tensor_transformation_params
          (name (subgraph_tensors g ! nat i0)) op_info True p c"
      and "\<exists>p c. e1 = get_tensor_transformation_params
          (name (subgraph_tensors g ! nat i1)) op_info True p c"
      unfolding remaining list_all2_Cons1 by blast
    then show ?thesis using that by blast
  qed
  obtain new2 where new2: "ps = r1 @ new2"
    using materialize_op_tensors_Inr [OF r2] by blast
  have ps: "ps = e0 # e1 # (es @ new2)"
    using new1 es new2 by simp
  have "tensor_name e0 = name (subgraph_tensors g ! nat i0)"
    and "tensor_name e1 = name (subgraph_tensors g ! nat i1)"
    and "\<exists>c0. first_consumer e0 = Inr c0" and "\<exists>c1. first_consumer e1 = Inr c1"
    using e0 e1
    by (auto simp add: get_tensor_transformation_params_def first_consumer_def)
  then show ?thesis using ps by blast
qed

text \<open>
  Claim C5. For a fully-connected, convolution or batch-matmul operator whose tensors are
  materialized and that has a fused bias tensor present at input slot 2: under SRQ the
  bias receives the transformation QUANTIZE_TENSOR with the parameters that the symmetric
  bias-quantization routine computes from the bias content and the parameters already
  materialized for the input (slot 0) and the weight (slot 1), an error of the routine
  being raised as it is; under DRQ and WEIGHT_ONLY the bias receives NO_QUANTIZE with null
  parameters. The entry of the bias is appended to the entries of the other tensors, which
  stay as they are.
\<close>

theorem materialize_fc_conv_bias:
  assumes "materialize_standard_op env op_info g qsv NO_CONSTRAIN (Some [2]) None
           = Inr (ps, qsv')"
    and "parse_fc_bmm_conv_tensors (op op_info) (subgraph_tensors g)
         = Inr (it, wt, Some bias, ot)"
  shows "(execution_mode (op_quant_config op_info) = SRQ
       \<longrightarrow> materialize_fc_conv env op_info g qsv
           = bind_result (fused_bias_quant_params env bias op_info g ps) (\<lambda>bias_quant_params.
               Inr (ps @ [\<lparr>tensor_name = name bias, producer = None,
                           consumers =
                             Some [\<lparr>subgraph_op_id = subgraph_op_index op_info,
                                    transformations = [QUANTIZE_TENSOR],
                                    parameters = bias_quant_params\<rparr>]\<rparr>], qsv')))
    \<and> (execution_mode (op_quant_config op_info) = SRQ
        \<and> get_tensor_data_model_buffer env bias (buffers g) (whole_model_buffer g)
          = Inr content
        \<and> ps = p0 # p1 # remaining \<and> first_consumer p0 = Inr c0 \<and> first_consumer p1 = Inr c1
        \<and> bias_quantizer env content (parameters c0) (parameters c1) = Inr bp
       \<longrightarrow> materialize_fc_conv env op_info g qsv
           = Inr (ps @ [\<lparr>tensor_name = name bias, producer = None,
                         consumers =
                           Some [\<lparr>subgraph_op_id = subgraph_op_index op_info,
                                  transformations = [QUANTIZE_TENSOR],
                                  parameters = Some bp\<rparr>]\<rparr>], qsv'))
    \<and> (execution_mode (op_quant_config op_info) = DRQ
        \<or> execution_mode (op_quant_config op_info) = WEIGHT_ONLY
       \<longrightarrow> materialize_fc_conv env op_info g qsv
           = Inr (ps @ [\<lparr>tensor_name = name bias, producer = None,
                         consumers =
                           Some [\<lparr>subgraph_op_id = subgraph_op_index op_info,
                                  transformations = [NO_QUANTIZE],
                                  parameters = None\<rparr>]\<rparr>], qsv'))
    \<and> (inputs (op op_info) = i0 # i1 # rest \<and> 0 \<le> i0 \<and> 0 \<le> i1
       \<longrightarrow> (\<exists>q0 q1 others d0 d1. ps = q0 # q1 # others
             \<and> tensor_name q0 = name (subgraph_tensors g ! nat i0)
             \<and> tensor_name q1 = name (subgraph_tensors g ! nat i1)
             \<and> first_consumer q0 = Inr d0 \<and> first_consumer q1 = Inr d1))
    \<and> 2 < length (inputs (op op_info)) \<and> inputs (op op_info) ! 2 \<noteq> - 1
    \<and> py_get (subgraph_tensors g) (inputs (op op_info) ! 2) = Inr bias"
proof -
  have run: "materialize_fc_conv env op_info g qsv
      = bind_result (fused_bias_quant_params env bias op_info g ps) (\<lambda>bias_quant_params.
          Inr (ps @ [get_tensor_transformation_params (name bias) op_info True
                       bias_quant_params
                       (execution_mode (op_quant_config op_info) = SRQ)], qsv'))"
    using assms by (simp add: materialize_fc_conv_def bind_result_Inr get_tensor_name_def)
  have srq: "materialize_fc_conv env op_info g qsv
      = bind_result (fused_bias_quant_params env bias op_info g ps) (\<lambda>bias_quant_params.
          Inr (ps @ [\<lparr>tensor_name = name bias, producer = None,
                      consumers =
                        Some [\<lparr>subgraph_op_id = subgraph_op_index op_info,
                               transformations = [QUANTIZE_TENSOR],
                               parameters = bias_quant_params\<rparr>]\<rparr>], qsv'))"
    if "execution_mode (op_quant_config op_info) = SRQ"
    using that
    by (simp add: run get_tensor_transformation_params_def get_tensor_transformations_def)
  have computed: "materialize_fc_conv env op_info g qsv
      = Inr (ps @ [\<lparr>tensor_name = name bias, producer = None,
                    consumers =
                      Some [\<lparr>subgraph_op_id = subgraph_op_index op_info,
                             transformations = [QUANTIZE_TENSOR],
                             parameters = Some bp\<rparr>]\<rparr>], qsv')"
    if "execution_mode (op_quant_config op_info) = SRQ"
      and "get_tensor_data_model_buffer env bias (buffers g) (whole_model_buffer g)
          = Inr content"
      and "ps = p0 # p1 # remaining" and "first_consumer p0 = Inr c0"
      and "first_consumer p1 = Inr c1"
      and "bias_quantizer env content (parameters c0) (parameters c1) = Inr bp"
  proof -
    have "fused_bias_quant_params env bias op_info g ps = Inr (Some bp)"
      using that
      by (simp add: fused_bias_quant_params_def bind_result_Inr py_get_def py_index_def)
    then show ?thesis
      using that(1) by (simp add: srq bind_result_Inr)
  qed
  have other: "materialize_fc_conv env op_info g qsv
      = Inr (ps @ [\<lparr>tensor_name = name bias, producer = None,
                    consumers =
                      Some [\<lparr>subgraph_op_id = subgraph_op_index op_info,
                             transformations = [NO_QUANTIZE],
                             parameters = None\<rparr>]\<rparr>], qsv')"
    if "execution_mode (op_quant_config op_info) = DRQ
        \<or> execution_mode (op_quant_config op_info) = WEIGHT_ONLY"
    using that
    by (auto simp add: run fused_bias_quant_params_def bind_result_Inr
        get_tensor_transformation_params_def get_tensor_transformations_def)
  have slots: "\<exists>q0 q1 others d0 d1. ps = q0 # q1 # others
      \<and> tensor_name q0 = name (subgraph_tensors g ! nat i0)
      \<and> tensor_name q1 = name (subgraph_tensors g ! nat i1)
      \<and> first_consumer q0 = Inr d0 \<and> first_consumer q1 = Inr d1"
    if "inputs (op op_info) = i0 # i1 # rest" "0 \<le> i0" "0 \<le> i1"
    using standard_op_no_constraint_first_two [OF assms(1) that] .
  have present: "2 < length (inputs (op op_info)) \<and> inputs (op op_info) ! 2 \<noteq> - 1
      \<and> py_get (subgraph_tensors g) (inputs (op op_info) ! 2) = Inr bias"
    using assms(2)
    by (auto simp add: parse_fc_bmm_conv_tensors_def bind_result_eq_Inr split: if_splits)
  show ?thesis
    using srq computed other slots present by blast
qed

theorem materialize_fc_conv_bias_witness:
  "map_sum id (\<lambda>r. last (fst r))
     (materialize_fc_conv example_numpy_env (example_fc_op_info SRQ) example_graph_info
        example_qsv)
   = Inr \<lparr>tensor_name = ''bias'', producer = None,
          consumers =
            Some [\<lparr>subgraph_op_id = 0, transformations = [QUANTIZE_TENSOR],
                   parameters =
                     Some \<lparr>scale = [1], zero_point = [0], num_bits = 32, symmetric = True,
                           quantized_dimension = None,
                           quantized_data = Some [66, 88]\<rparr>\<rparr>]\<rparr>
   \<and> map_sum id (\<lambda>r. last (fst r))
       (materialize_fc_conv example_numpy_env (example_fc_op_info WEIGHT_ONLY)
          example_graph_info example_qsv)
     = Inr \<lparr>tensor_name = ''bias'', producer = None,
            consumers =
              Some [\<lparr>subgraph_op_id = 0, transformations = [NO_QUANTIZE],
                     parameters = None\<rparr>]\<rparr>
   \<and> py_get (subgraph_tensors example_graph_info) (inputs (op (example_fc_op_info SRQ)) ! 2)
     = Inr \<lparr>shape = [2], type = FLOAT32, buffer = 2, name = ''bias'', quantization = None\<rparr>"
proof -
  let ?g = "example_graph_info"
  let ?it = "\<lparr>shape = [1, 2], type = FLOAT32, buffer = 0, name = ''input'',
      quantization = None :: int QuantizationParametersT option\<rparr>"
  let ?wt = "\<lparr>shape = [2, 2], type = FLOAT32, buffer = 1, name = ''weight'',
      quantization = None :: int QuantizationParametersT option\<rparr>"
  let ?bias = "\<lparr>shape = [2], type = FLOAT32, buffer = 2, name = ''bias'',
      quantization = None :: int QuantizationParametersT option\<rparr>"
  let ?ot = "\<lparr>shape = [1, 2], type = FLOAT32, buffer = 0, name = ''output'',
      quantization = None :: int QuantizationParametersT option\<rparr>"
  let ?bp = "\<lparr>scale = [1 :: int], zero_point = [0 :: int], num_bits = 32, symmetric = True,
      quantized_dimension = None, quantized_data = Some [66 :: int, 88]\<rparr>"
  have std: "\<exists>ps qsv'. materialize_standard_op example_numpy_env (example_fc_op_info mode)
      ?g example_qsv NO_CONSTRAIN (Some [2]) None = Inr (ps, qsv')" for mode
    by (cases mode) (simp_all add: materialize_standard_op_def
        materialize_standard_op_no_constraint_def
        get_tensor_transformation_params_wrapper_def get_tensor_data_def
        select_tensor_quant_config_def example_graph_info_def example_fc_op_info_def
        example_op_quant_config_def example_numpy_env_def example_qsv_def bind_result_Inr
        get_tensor_name_def get_tensor_quant_params_def get_tensor_transformation_params_def
        get_tensor_transformations_def SUPPORTED_WEIGHT_ONLY_OPS_def SUPPORTED_DRQ_OPS_def
        init_tensor_min_max_def get_reduce_dims_def TFL_OP_TO_WEIGHT_QUANTIZED_DIM_def
        py_get_def py_index_def Let_def)
  have parse: "parse_fc_bmm_conv_tensors (op (example_fc_op_info mode)) (subgraph_tensors ?g)
      = Inr (?it, ?wt, Some ?bias, ?ot)" for mode
    by (simp add: parse_fc_bmm_conv_tensors_def example_fc_op_info_def example_graph_info_def
        bind_result_Inr py_get_def py_index_def)
  obtain ps qsv' where srq: "materialize_standard_op example_numpy_env
      (example_fc_op_info SRQ) ?g example_qsv NO_CONSTRAIN (Some [2]) None = Inr (ps, qsv')"
    using std by blast
  obtain ps_w qsv_w where wo: "materialize_standard_op example_numpy_env
      (example_fc_op_info WEIGHT_ONLY) ?g example_qsv NO_CONSTRAIN (Some [2]) None
      = Inr (ps_w, qsv_w)"
    using std by blast
  have ins: "inputs (op (example_fc_op_info SRQ)) = 0 # 1 # [2]"
    by (simp add: example_fc_op_info_def)
  have mode: "execution_mode (op_quant_config (example_fc_op_info m)) = m" for m
    by (simp add: example_fc_op_info_def example_op_quant_config_def)
  have idx: "subgraph_op_index (example_fc_op_info m) = 0" for m
    by (simp add: example_fc_op_info_def)
  have content: "get_tensor_data_model_buffer example_numpy_env ?bias (buffers ?g)
      (whole_model_buffer ?g) = Inr (Some [66, 88])"
    by (simp add: get_tensor_data_model_buffer_def example_numpy_env_def
        example_graph_info_def py_get_def py_index_def bind_result_Inr)
  have quantizer: "bias_quantizer example_numpy_env (Some [66, 88]) a b = Inr ?bp" for a b
    by (simp add: example_numpy_env_def)
  have "inputs (op (example_fc_op_info SRQ)) = 0 # 1 # [2] \<and> (0 :: int) \<le> 0
      \<and> (0 :: int) \<le> 1
      \<longrightarrow> (\<exists>q0 q1 others d0 d1. ps = q0 # q1 # others
            \<and> tensor_name q0 = name (subgraph_tensors ?g ! nat 0)
            \<and> tensor_name q1 = name (subgraph_tensors ?g ! nat 1)
            \<and> first_consumer q0 = Inr d0 \<and> first_consumer q1 = Inr d1)"
    using materialize_fc_conv_bias [where ?i0.0 = 0 and ?i1.0 = 1 and rest = "[2]",
        OF srq parse]
    by blast
  then have "\<exists>q0 q1 others d0 d1. ps = q0 # q1 # others
      \<and> first_consumer q0 = Inr d0 \<and> first_consumer q1 = Inr d1"
    using ins by auto
  then obtain q0 q1 others d0 d1 where slots: "ps = q0 # q1 # others"
    "first_consumer q0 = Inr d0" "first_consumer q1 = Inr d1"
    by blast
  have "materialize_fc_conv example_numpy_env (example_fc_op_info SRQ) ?g example_qsv
      = Inr (ps @ [\<lparr>tensor_name = name ?bias, producer = None,
                    consumers =
                      Some [\<lparr>subgraph_op_id = subgraph_op_index (example_fc_op_info SRQ),
                             transformations = [QUANTIZE_TENSOR],
                             parameters = Some ?bp\<rparr>]\<rparr>], qsv')"
    using materialize_fc_conv_bias [where content = "Some [66, 88]" and ?p0.0 = q0
        and ?p1.0 = q1 and remaining = others and ?c0.0 = d0 and ?c1.0 = d1 and bp = ?bp,
        OF srq parse]
      mode [of SRQ] content slots quantizer [of "parameters d0" "parameters d1"]
    by blast
  then have first: "map_sum id (\<lambda>r. last (fst r))
      (materialize_fc_conv example_numpy_env (example_fc_op_info SRQ) ?g example_qsv)
      = Inr \<lparr>tensor_name = ''bias'', producer = None,
             consumers =
               Some [\<lparr>subgraph_op_id = 0, transformations = [QUANTIZE_TENSOR],
                      parameters = Some ?bp\<rparr>]\<rparr>"
    by (simp add: idx)
  have "materialize_fc_conv example_numpy_env (example_fc_op_info WEIGHT_ONLY) ?g
      example_qsv
      = Inr (ps_w @ [\<lparr>tensor_name = name ?bias, producer = None,
                      consumers =
                        Some [\<lparr>subgraph_op_id
                                 = subgraph_op_index (example_fc_op_info WEIGHT_ONLY),
                               transformations = [NO_QUANTIZE],
                               parameters = None\<rparr>]\<rparr>], qsv_w)"
    using materialize_fc_conv_bias [OF wo parse] mode [of WEIGHT_ONLY]
    by blast
  then have second: "map_sum id (\<lambda>r. last (fst r))
      (materialize_fc_conv example_numpy_env (example_fc_op_info WEIGHT_ONLY) ?g example_qsv)
      = Inr \<lparr>tensor_name = ''bias'', producer = None,
             consumers =
               Some [\<lparr>subgraph_op_id = 0, transformations = [NO_QUANTIZE],
                      parameters = None\<rparr>]\<rparr>"
    by (simp add: idx)
  have third: "py_get (subgraph_tensors ?g) (inputs (op (example_fc_op_info SRQ)) ! 2)
      = Inr ?bias"
    using materialize_fc_conv_bias [OF srq parse] by blast
  show ?thesis
    using first second third by blast
qed

end
